theory Spec2Isabelle
  imports Main
begin

section \<open>Python values, exceptions and JSON\<close>

text \<open>
  Exceptions are values.  A call that may raise has the result type \<open>exn + 'a\<close>, with
  \<open>Inl\<close> the exception.  \<open>Http404\<close> is what \<open>get_object_or_404\<close> raises,
  \<open>IntegrityError\<close> what the database raises for a NULL in a NOT NULL column,
  \<open>ValidationError\<close> and \<open>InvalidOperation\<close> what the conversion of a date or a decimal
  raises,
  \<open>ClientError\<close> stands for whatever a call of the AWS SDK raises, and \<open>TypeError\<close> is
  what \<open>json.dumps\<close> raises on an object that has no JSON form.
\<close>

datatype exn =
  Http404 | IntegrityError | ValidationError | InvalidOperation | ClientError string | TypeError

text \<open>
  The values a log entry is built from.  \<open>JOpaque\<close> is any Python object that
  \<open>json.dumps\<close> cannot serialise.
\<close>

datatype json = JNull | JStr string | JInt int | JObj "(string \<times> json) list" | JOpaque

fun serialisable :: "json \<Rightarrow> bool" where
  "serialisable JNull = True"
| "serialisable (JStr s) = True"
| "serialisable (JInt i) = True"
| "serialisable (JObj kvs) = list_all (\<lambda>kv. serialisable (snd kv)) kvs"
| "serialisable JOpaque = False"

text \<open>\<open>json.dumps\<close>: the text is not modelled, only whether the call raises.\<close>

definition json_dumps :: "json \<Rightarrow> exn + json" where
  "json_dumps j = (if serialisable j then Inr j else Inl TypeError)"

text \<open>\<open>try: body except Exception as e: handler\<close>.\<close>

definition try_except :: "exn + 'a \<Rightarrow> (exn \<Rightarrow> exn + 'a) \<Rightarrow> exn + 'a" where
  "try_except body handler = (case body of Inl e \<Rightarrow> handler e | Inr v \<Rightarrow> Inr v)"

text \<open>Sequencing of two statements: an exception of the first skips the second.\<close>

definition and_then :: "exn + 'a \<Rightarrow> ('a \<Rightarrow> exn + 'b) \<Rightarrow> exn + 'b" where
  "and_then m f = (case m of Inl e \<Rightarrow> Inl e | Inr v \<Rightarrow> f v)"

text \<open>\<open>str(x)\<close> and the \<open>{x}\<close> of an f-string, for a form value that may be \<open>None\<close>.\<close>

definition py_str :: "string option \<Rightarrow> string" where
  "py_str v = (case v of None \<Rightarrow> ''None'' | Some s \<Rightarrow> s)"

definition json_of :: "string option \<Rightarrow> json" where
  "json_of v = (case v of None \<Rightarrow> JNull | Some s \<Rightarrow> JStr s)"

text \<open>\<open>str(n)\<close> of a non-negative integer: its decimal digits.\<close>

definition digit_char :: "nat \<Rightarrow> char" where
  "digit_char d = char_of (48 + d)"

fun show_nat :: "nat \<Rightarrow> string" where
  "show_nat n = (if n < 10 then [digit_char n] else show_nat (n div 10) @ [digit_char (n mod 10)])"

declare show_nat.simps [simp del]

section \<open>aws_utils.py\<close>

subsection \<open>CloudWatchLogger\<close>

text \<open>
  The boto3 clients are outside the repository: each of their methods is a function from
  the arguments of the call to its outcome, an exception or a normal return.
\<close>

record logs_client =
  describe_log_groups :: "string \<Rightarrow> exn + unit"
  create_log_group :: "string \<Rightarrow> exn + unit"
  describe_log_streams :: "string \<Rightarrow> string \<Rightarrow> exn + unit"
  create_log_stream :: "string \<Rightarrow> string \<Rightarrow> exn + unit"
  put_log_events :: "string \<Rightarrow> string \<Rightarrow> nat \<Rightarrow> json \<Rightarrow> exn + unit"

record cloudwatch_logger =
  log_group_name :: string
  log_region_name :: string
  logs :: logs_client
  log_stream_name :: string

definition ensure_log_group_exists :: "cloudwatch_logger \<Rightarrow> exn + bool" where
  "ensure_log_group_exists self =
     try_except
       (and_then (describe_log_groups (logs self) (log_group_name self)) (\<lambda>_. Inr True))
       (\<lambda>_. try_except
               (and_then (create_log_group (logs self) (log_group_name self)) (\<lambda>_. Inr True))
               (\<lambda>e. Inr False))"

definition ensure_log_stream_exists :: "cloudwatch_logger \<Rightarrow> exn + bool" where
  "ensure_log_stream_exists self =
     try_except
       (and_then (describe_log_streams (logs self) (log_group_name self) (log_stream_name self))
          (\<lambda>_. Inr True))
       (\<lambda>_. try_except
               (and_then (create_log_stream (logs self) (log_group_name self) (log_stream_name self))
                  (\<lambda>_. Inr True))
               (\<lambda>e. Inr False))"

text \<open>
  \<open>utcnow\<close> is the reading of the clock, taken by both \<open>datetime.utcnow()\<close> calls.
  The condition \<open>not a() or not b()\<close> evaluates \<open>b()\<close> only when \<open>a()\<close> returned true.
\<close>

definition log_project_activity ::
  "cloudwatch_logger \<Rightarrow> nat \<Rightarrow> string \<Rightarrow> json \<Rightarrow> json \<Rightarrow> json \<Rightarrow> exn + bool" where
  "log_project_activity self utcnow activity_type project_name usr details =
     and_then (ensure_log_group_exists self) (\<lambda>g.
     and_then (if \<not> g then Inr True else and_then (ensure_log_stream_exists self) (\<lambda>st. Inr (\<not> st)))
       (\<lambda>failed.
     if failed then Inr False
     else
       let log_entry = JObj [(''timestamp'', JInt (int utcnow)),
                             (''activity_type'', JStr activity_type),
                             (''project_name'', project_name),
                             (''user'', usr),
                             (''details'', details)]
       in try_except
            (and_then (json_dumps log_entry) (\<lambda>message.
             and_then (put_log_events (logs self) (log_group_name self) (log_stream_name self)
                         utcnow message) (\<lambda>response.
             Inr True)))
            (\<lambda>e. Inr False)))"

definition log_user_login :: "cloudwatch_logger \<Rightarrow> nat \<Rightarrow> json \<Rightarrow> string option \<Rightarrow> exn + bool" where
  "log_user_login self utcnow username ip_address =
     (let details = (case ip_address of
                       None \<Rightarrow> JObj []
                     | Some ip \<Rightarrow> if ip = [] then JObj [] else JObj [(''ip_address'', JStr ip)])
      in log_project_activity self utcnow ''LOGIN'' (JStr ''USER_AUTH'') username details)"

definition log_file_upload :: "cloudwatch_logger \<Rightarrow> nat \<Rightarrow> json \<Rightarrow> json \<Rightarrow> json \<Rightarrow> exn + bool" where
  "log_file_upload self utcnow filename usr project_name =
     (let details = JObj [(''filename'', filename), (''action'', JStr ''file_upload'')]
      in log_project_activity self utcnow ''FILE_UPLOAD'' project_name usr details)"

subsection \<open>S3FileManager\<close>

record uploaded_file =
  file_name :: string
  file_content :: string

record s3_client =
  upload_fileobj :: "uploaded_file \<Rightarrow> string \<Rightarrow> string \<Rightarrow> exn + unit"
  generate_presigned_url :: "string \<Rightarrow> string \<Rightarrow> nat \<Rightarrow> exn + string"

record s3_file_manager =
  bucket_name :: string
  s3_region_name :: string
  s3 :: s3_client

definition upload_file :: "s3_file_manager \<Rightarrow> uploaded_file \<Rightarrow> string \<Rightarrow> exn + bool" where
  "upload_file self file_obj file_key =
     try_except
       (and_then (upload_fileobj (s3 self) file_obj (bucket_name self) file_key) (\<lambda>_. Inr True))
       (\<lambda>e. Inr False)"

definition get_file_url :: "s3_file_manager \<Rightarrow> string \<Rightarrow> nat \<Rightarrow> exn + string option" where
  "get_file_url self file_key expiration =
     try_except
       (and_then (generate_presigned_url (s3 self) (bucket_name self) file_key expiration)
          (\<lambda>url. Inr (Some url)))
       (\<lambda>e. Inr None)"

subsection \<open>NotificationManager\<close>

record notification_manager =
  nm_region_name :: string
  ses_send_email :: "string \<Rightarrow> string \<Rightarrow> string \<Rightarrow> string \<Rightarrow> exn + unit"
  sns_publish :: "string \<Rightarrow> string \<Rightarrow> string option \<Rightarrow> exn + unit"

definition send_email ::
  "notification_manager \<Rightarrow> string \<Rightarrow> string \<Rightarrow> string \<Rightarrow> string \<Rightarrow> exn + bool" where
  "send_email self to_email subject body sender_email =
     try_except
       (and_then (ses_send_email self sender_email to_email subject body) (\<lambda>response. Inr True))
       (\<lambda>e. Inr False)"

text \<open>The \<open>Subject\<close> parameter is passed only when \<open>subject\<close> is truthy.\<close>

definition send_sns_notification ::
  "notification_manager \<Rightarrow> string \<Rightarrow> string \<Rightarrow> string option \<Rightarrow> exn + bool" where
  "send_sns_notification self topic_arn message subject =
     try_except
       (let params_subject = (case subject of
                                None \<Rightarrow> None
                              | Some sb \<Rightarrow> if sb = [] then None else Some sb)
        in and_then (sns_publish self topic_arn message params_subject) (\<lambda>response. Inr True))
       (\<lambda>e. Inr False)"

section \<open>models.py\<close>

record user =
  user_id :: nat
  username :: string
  email :: string

text \<open>
  A \<open>Project\<close> instance.  The eight form-carried attributes hold what the view assigned,
  the text of the form field or \<open>None\<close>; \<open>pk\<close> is the \<open>id\<close> column, \<open>manager\<close>
  the id of the owning user, \<open>document\<close> the name of the stored file if any.  A row of
  the table has the same shape; its \<open>start_date\<close>, \<open>end_date\<close> and \<open>budget\<close> hold the value
  the column keeps, written as text, which need not be the text the instance was given
  (\<open>DateField\<close>, \<open>DecimalField(max_digits=12, decimal_places=2)\<close>).
\<close>

record project =
  pk :: nat
  name :: "string option"
  description :: "string option"
  location :: "string option"
  start_date :: "string option"
  end_date :: "string option"
  budget :: "string option"
  status :: "string option"
  priority :: "string option"
  manager :: nat
  document :: "string option"
  created_at :: nat
  updated_at :: nat

text \<open>
  A keyword argument of the constructor is either left out, and then the field's declared
  default is taken, or passed, possibly as \<open>None\<close>.  Only \<open>status\<close> and \<open>priority\<close>
  declare a default.
\<close>

datatype 'a kwarg = Omitted | Passed 'a

definition status_default :: string where
  "status_default = ''Planning''"

definition priority_default :: string where
  "priority_default = ''Medium''"

fun field_value :: "string \<Rightarrow> string option kwarg \<Rightarrow> string option" where
  "field_value dflt Omitted = Some dflt"
| "field_value dflt (Passed v) = v"

text \<open>\<open>__str__\<close>\<close>

definition project_str :: "project \<Rightarrow> string option" where
  "project_str self = name self"

section \<open>The database, the collaborators and the request\<close>

datatype event =
    LogActivity string json json json
  | UploadFile uploaded_file string
  | GetFileUrl string
  | SendEmail string string string string
  | SendSns string string "string option"

text \<open>
  The state a request works on: the rows of the project table in the order of their
  insertion, the next value of the \<open>id\<close> sequence, the calls made so far on the three
  collaborator objects, and the flash messages queued for the user.
\<close>

record state =
  projects :: "project list"
  next_id :: nat
  trace :: "event list"
  messages :: "string list"

text \<open>
  What surrounds one request: the three module-level collaborator objects and the two
  settings the views read, the reading of the clock, and the database layer, which is not
  in this repository:
  \<^item> \<open>date_column\<close> and \<open>decimal_column\<close> give what a \<open>DateField\<close> column and the
    \<open>DecimalField(max_digits=12, decimal_places=2)\<close> column keep of a text that is saved
    (the date parsed, the decimal rounded to two places), or the exception the save
    raises for it;
  \<^item> \<open>decimal_read\<close> is the conversion of a stored decimal when a row is read, which
    raises on a value the backend stored but cannot convert;
  \<^item> \<open>db_prep\<close> is any other rejection of a row by the database (a text too long for
    its column).
\<close>

record env =
  cloudwatch_logger :: cloudwatch_logger
  s3_manager :: s3_file_manager
  notification_manager :: notification_manager
  AWS_SES_SENDER_EMAIL :: string
  AWS_SNS_TOPIC_ARN :: string
  db_prep :: "project \<Rightarrow> exn option"
  date_column :: "string \<Rightarrow> exn + string"
  decimal_column :: "string \<Rightarrow> exn + string"
  decimal_read :: "string \<Rightarrow> exn + string"
  clock :: nat

text \<open>
  The request: its method (\<open>request.method\<close>), the user of the session if there is one,
  and the form fields and files as \<open>.get\<close> reads them.
\<close>

record request =
  http_method :: string
  user :: "user option"
  POST :: "string \<Rightarrow> string option"
  FILES :: "string \<Rightarrow> uploaded_file option"

type_synonym 'a action = "state \<Rightarrow> (exn + 'a) \<times> state"

definition ret :: "'a \<Rightarrow> 'a action" where
  "ret v s = (Inr v, s)"

definition seq :: "'a action \<Rightarrow> ('a \<Rightarrow> 'b action) \<Rightarrow> 'b action" where
  "seq m f s = (case m s of (Inl e, s') \<Rightarrow> (Inl e, s') | (Inr v, s') \<Rightarrow> f v s')"

subsection \<open>The object manager of \<open>Project\<close>\<close>

text \<open>All eight form-carried columns are NOT NULL.\<close>

definition has_null :: "project \<Rightarrow> bool" where
  "has_null p \<longleftrightarrow>
     name p = None \<or> description p = None \<or> location p = None \<or> start_date p = None \<or>
     end_date p = None \<or> budget p = None \<or> status p = None \<or> priority p = None"

text \<open>A column value that is \<open>None\<close> is passed on as NULL; a text goes through the column.\<close>

definition column_value :: "(string \<Rightarrow> exn + string) \<Rightarrow> string option \<Rightarrow> exn + string option" where
  "column_value adapt v =
     (case v of None \<Rightarrow> Inr None | Some t \<Rightarrow> and_then (adapt t) (\<lambda>t'. Inr (Some t')))"

text \<open>
  Writing an instance: the values are prepared column by column, which may raise, and the
  database then takes the row or rejects it.  The instance itself keeps what it was given.
\<close>

definition to_row :: "env \<Rightarrow> project \<Rightarrow> exn + project" where
  "to_row env p =
     and_then (column_value (date_column env) (start_date p)) (\<lambda>sd.
     and_then (column_value (date_column env) (end_date p)) (\<lambda>ed.
     and_then (column_value (decimal_column env) (budget p)) (\<lambda>b.
       let row = p\<lparr>start_date := sd, end_date := ed, budget := b\<rparr>
       in case db_prep env row of
            Some e \<Rightarrow> Inl e
          | None \<Rightarrow> if has_null row then Inl IntegrityError else Inr row)))"

text \<open>The exception, if any, that writing an instance raises.\<close>

definition db_check :: "env \<Rightarrow> project \<Rightarrow> exn option" where
  "db_check env p = (case to_row env p of Inl e \<Rightarrow> Some e | Inr row \<Rightarrow> None)"

text \<open>Reading a row: the stored decimal is converted, which may raise.\<close>

definition from_row :: "env \<Rightarrow> project \<Rightarrow> exn + project" where
  "from_row env row =
     and_then (column_value (decimal_read env) (budget row)) (\<lambda>b. Inr (row\<lparr>budget := b\<rparr>))"

text \<open>
  \<open>Project.objects.create(...)\<close> builds the instance from the keyword arguments and
  inserts it: the row gets the next id and both timestamps (\<open>auto_now_add\<close>,
  \<open>auto_now\<close>); a rejected row is not written.
\<close>

definition new_project ::
  "nat \<Rightarrow> nat \<Rightarrow> string option \<Rightarrow> string option \<Rightarrow> string option \<Rightarrow> string option \<Rightarrow>
   string option \<Rightarrow> string option \<Rightarrow> string option kwarg \<Rightarrow> string option kwarg \<Rightarrow> nat \<Rightarrow> project" where
  "new_project pk' now name' description' location' start_date' end_date' budget' status' priority'
     manager' =
     \<lparr>pk = pk', name = name', description = description', location = location',
      start_date = start_date', end_date = end_date', budget = budget',
      status = field_value status_default status',
      priority = field_value priority_default priority',
      manager = manager', document = None, created_at = now, updated_at = now\<rparr>"

definition objects_create ::
  "env \<Rightarrow> string option \<Rightarrow> string option \<Rightarrow> string option \<Rightarrow> string option \<Rightarrow> string option \<Rightarrow>
   string option \<Rightarrow> string option kwarg \<Rightarrow> string option kwarg \<Rightarrow> nat \<Rightarrow> project action" where
  "objects_create env name' description' location' start_date' end_date' budget' status' priority'
     manager' s =
     (let p = new_project (next_id s) (clock env) name' description' location' start_date'
                end_date' budget' status' priority' manager'
      in case to_row env p of
           Inl e \<Rightarrow> (Inl e, s)
         | Inr row \<Rightarrow> (Inr p, s\<lparr>projects := projects s @ [row], next_id := next_id s + 1\<rparr>))"

text \<open>
  \<open>project.save()\<close> of an instance that has an id: \<open>updated_at\<close> is set (\<open>auto_now\<close>) and
  the row of that id is overwritten; if the table has no such row the instance is
  inserted, and \<open>created_at\<close> is then set as well (\<open>auto_now_add\<close>).
\<close>

definition save :: "env \<Rightarrow> project \<Rightarrow> project action" where
  "save env self s =
     (let p = self\<lparr>updated_at := clock env\<rparr>
      in if list_ex (\<lambda>r. pk r = pk p) (projects s)
         then (case to_row env p of
                 Inl e \<Rightarrow> (Inl e, s)
               | Inr row \<Rightarrow>
                   (Inr p, s\<lparr>projects := map (\<lambda>r. if pk r = pk p then row else r) (projects s)\<rparr>))
         else (let p' = p\<lparr>created_at := clock env\<rparr>
               in case to_row env p' of
                    Inl e \<Rightarrow> (Inl e, s)
                  | Inr row \<Rightarrow> (Inr p', s\<lparr>projects := projects s @ [row]\<rparr>)))"

definition delete :: "project \<Rightarrow> unit action" where
  "delete self s = (Inr (), s\<lparr>projects := filter (\<lambda>r. pk r \<noteq> pk self) (projects s)\<rparr>)"

text \<open>
  \<open>get_object_or_404(Project, id=project_id)\<close>: no row of that id raises \<open>Http404\<close>; the
  row found is read, which raises when its decimal cannot be converted.
\<close>

definition get_object_or_404 :: "env \<Rightarrow> nat \<Rightarrow> project action" where
  "get_object_or_404 env project_id s =
     (case find (\<lambda>r. pk r = project_id) (projects s) of
        None \<Rightarrow> (Inl Http404, s)
      | Some row \<Rightarrow>
          (case from_row env row of
             Inl e \<Rightarrow> (Inl e, s)
           | Inr p \<Rightarrow> (Inr p, s)))"

text \<open>
  \<open>Project.objects.all()\<close> under \<open>ordering = ['-created_at']\<close>.  Rows of equal
  \<open>created_at\<close> come in an order the database does not promise; here they keep the order
  of the table.
\<close>

definition objects_all :: "state \<Rightarrow> project list" where
  "objects_all s = sort_key (\<lambda>p. - int (created_at p)) (projects s)"

text \<open>
  The query set is evaluated when the template walks through it: the rows are read one
  after the other, and the first that cannot be read raises.
\<close>

fun read_all :: "env \<Rightarrow> project list \<Rightarrow> exn + project list" where
  "read_all env [] = Inr []"
| "read_all env (row # rows) =
     and_then (from_row env row) (\<lambda>p.
     and_then (read_all env rows) (\<lambda>ps. Inr (p # ps)))"

definition render_projects :: "env \<Rightarrow> project list \<Rightarrow> project list action" where
  "render_projects env rows s = (read_all env rows, s)"

subsection \<open>Calls on the collaborator objects\<close>

definition cw_log_project_activity :: "env \<Rightarrow> string \<Rightarrow> json \<Rightarrow> json \<Rightarrow> json \<Rightarrow> bool action" where
  "cw_log_project_activity env activity_type project_name usr details s =
     (log_project_activity (cloudwatch_logger env) (clock env) activity_type project_name usr details,
      s\<lparr>trace := trace s @ [LogActivity activity_type project_name usr details]\<rparr>)"

definition cw_log_file_upload :: "env \<Rightarrow> json \<Rightarrow> json \<Rightarrow> json \<Rightarrow> bool action" where
  "cw_log_file_upload env filename usr project_name s =
     (log_file_upload (cloudwatch_logger env) (clock env) filename usr project_name,
      s\<lparr>trace := trace s @ [LogActivity ''FILE_UPLOAD'' project_name usr
                               (JObj [(''filename'', filename), (''action'', JStr ''file_upload'')])]\<rparr>)"

definition s3_upload_file :: "env \<Rightarrow> uploaded_file \<Rightarrow> string \<Rightarrow> bool action" where
  "s3_upload_file env file_obj file_key s =
     (upload_file (s3_manager env) file_obj file_key,
      s\<lparr>trace := trace s @ [UploadFile file_obj file_key]\<rparr>)"

definition s3_get_file_url :: "env \<Rightarrow> string \<Rightarrow> string option action" where
  "s3_get_file_url env file_key s =
     (get_file_url (s3_manager env) file_key 3600,
      s\<lparr>trace := trace s @ [GetFileUrl file_key]\<rparr>)"

definition nm_send_email :: "env \<Rightarrow> string \<Rightarrow> string \<Rightarrow> string \<Rightarrow> string \<Rightarrow> bool action" where
  "nm_send_email env to_email subject body sender_email s =
     (send_email (notification_manager env) to_email subject body sender_email,
      s\<lparr>trace := trace s @ [SendEmail to_email subject body sender_email]\<rparr>)"

definition nm_send_sns_notification :: "env \<Rightarrow> string \<Rightarrow> string \<Rightarrow> string option \<Rightarrow> bool action" where
  "nm_send_sns_notification env topic_arn message subject s =
     (send_sns_notification (notification_manager env) topic_arn message subject,
      s\<lparr>trace := trace s @ [SendSns topic_arn message subject]\<rparr>)"

definition messages_success :: "string \<Rightarrow> unit action" where
  "messages_success text s = (Inr (), s\<lparr>messages := messages s @ [text]\<rparr>)"

section \<open>views.py\<close>

datatype template_context =
    NoContext
  | ProjectsContext "project list"
  | ProjectContext project "string option"

datatype response = Redirect string | Render string template_context

text \<open>\<open>@login_required\<close>: an anonymous request is sent to the login page.\<close>

definition login_required :: "request \<Rightarrow> (user \<Rightarrow> response action) \<Rightarrow> response action" where
  "login_required request view =
     (case user request of
        None \<Rightarrow> ret (Redirect ''user_login'')
      | Some u \<Rightarrow> view u)"

text \<open>Truth value of an uploaded file (it is that of its name) and of a stored file name.\<close>

definition file_truthy :: "uploaded_file option \<Rightarrow> bool" where
  "file_truthy document' = (case document' of None \<Rightarrow> False | Some d \<Rightarrow> file_name d \<noteq> [])"

definition document_truthy :: "string option \<Rightarrow> bool" where
  "document_truthy document' = (case document' of None \<Rightarrow> False | Some k \<Rightarrow> k \<noteq> [])"

definition dq :: string where
  "dq = [CHR 0x22]"

definition project_list :: "env \<Rightarrow> request \<Rightarrow> response action" where
  "project_list env request =
     login_required request (\<lambda>u s.
       (let projects' = objects_all s
        in seq (cw_log_project_activity env ''VIEW'' (JStr ''PROJECT_LIST'') (JStr (username u))
                  (JObj [(''total_projects'', JInt (int (length projects')))])) (\<lambda>_.
           seq (render_projects env projects') (\<lambda>listed.
           ret (Render ''construction/project_list.html'' (ProjectsContext listed))))) s)"

definition project_create :: "env \<Rightarrow> request \<Rightarrow> response action" where
  "project_create env request =
     login_required request (\<lambda>u.
       if http_method request = ''POST'' then
         (let name' = POST request ''name'';
              description' = POST request ''description'';
              location' = POST request ''location'';
              start_date' = POST request ''start_date'';
              end_date' = POST request ''end_date'';
              budget' = POST request ''budget'';
              status' = POST request ''status'';
              priority' = POST request ''priority'';
              document' = FILES request ''document''
          in
          seq (objects_create env name' description' location' start_date' end_date' budget'
                 (Passed status') (Passed priority') (user_id u)) (\<lambda>project.
          seq (if file_truthy document' then
                 (let file_key = ''project_documents/'' @ show_nat (pk project) @ ''_''
                                 @ file_name (the document')
                  in seq (s3_upload_file env (the document') file_key) (\<lambda>uploaded.
                     if uploaded then
                       seq (save env (project\<lparr>document := Some file_key\<rparr>)) (\<lambda>project.
                       seq (cw_log_file_upload env (JStr (file_name (the document')))
                              (JStr (username u)) (json_of name')) (\<lambda>_.
                       ret ()))
                     else ret ()))
               else ret ()) (\<lambda>_.
          seq (cw_log_project_activity env ''CREATE'' (json_of name') (JStr (username u))
                 (JObj [(''budget'', JStr (py_str budget')), (''status'', json_of status'),
                        (''priority'', json_of priority')])) (\<lambda>_.
          seq (nm_send_email env
                 (if email u \<noteq> [] then email u else AWS_SES_SENDER_EMAIL env)
                 (''New Construction Project Created: '' @ py_str name')
                 (''A new construction project '' @ dq @ py_str name' @ dq
                    @ '' has been created with budget $'' @ py_str budget' @ ''.'')
                 (AWS_SES_SENDER_EMAIL env)) (\<lambda>_.
          seq (if priority' = Some ''High'' \<or> priority' = Some ''Critical'' then
                 seq (nm_send_sns_notification env (AWS_SNS_TOPIC_ARN env)
                        (''High priority construction project created: '' @ py_str name'
                           @ '' (Priority: '' @ py_str priority' @ '')'')
                        (Some ''High Priority Project Alert'')) (\<lambda>_. ret ())
               else ret ()) (\<lambda>_.
          seq (messages_success (''Project '' @ dq @ py_str name' @ dq @ '' created successfully!''))
            (\<lambda>_.
          ret (Redirect ''project_list''))))))))
       else ret (Render ''construction/project_create.html'' NoContext))"

text \<open>
  The POST branch of \<open>project_detail\<close> either returns a response (\<open>Inl\<close>, the redirect
  after a delete) or falls through to the rendering with the instance it holds (\<open>Inr\<close>).
\<close>

definition project_detail_post ::
  "env \<Rightarrow> request \<Rightarrow> user \<Rightarrow> project \<Rightarrow> (response + project) action" where
  "project_detail_post env request u project =
     (let action = POST request ''action''
      in
      if action = Some ''update'' then
        (let project = project\<lparr>name := POST request ''name''\<rparr>;
             project = project\<lparr>description := POST request ''description''\<rparr>;
             project = project\<lparr>location := POST request ''location''\<rparr>;
             project = project\<lparr>start_date := POST request ''start_date''\<rparr>;
             project = project\<lparr>end_date := POST request ''end_date''\<rparr>;
             project = project\<lparr>budget := POST request ''budget''\<rparr>;
             project = project\<lparr>status := POST request ''status''\<rparr>;
             project = project\<lparr>priority := POST request ''priority''\<rparr>;
             document' = FILES request ''document''
         in
         seq (if file_truthy document' then
                (let file_key = ''project_documents/'' @ show_nat (pk project) @ ''_''
                                @ file_name (the document')
                 in seq (s3_upload_file env (the document') file_key) (\<lambda>uploaded.
                    if uploaded then
                      seq (cw_log_file_upload env (JStr (file_name (the document')))
                             (JStr (username u)) (json_of (name project))) (\<lambda>_.
                      ret (project\<lparr>document := Some file_key\<rparr>))
                    else ret project))
              else ret project) (\<lambda>project.
         seq (save env project) (\<lambda>project.
         seq (cw_log_project_activity env ''UPDATE'' (json_of (name project)) (JStr (username u))
                (JObj [(''budget'', JStr (py_str (budget project))),
                       (''status'', json_of (status project))])) (\<lambda>_.
         seq (messages_success (''Project '' @ dq @ py_str (name project) @ dq
                                  @ '' updated successfully!'')) (\<lambda>_.
         ret (Inr project))))))
      else if action = Some ''delete'' then
        (let project_name = name project
         in
         seq (delete project) (\<lambda>_.
         seq (cw_log_project_activity env ''DELETE'' (json_of project_name) (JStr (username u))
                (JObj [])) (\<lambda>_.
         seq (messages_success (''Project '' @ dq @ py_str project_name @ dq
                                  @ '' deleted successfully!'')) (\<lambda>_.
         ret (Inl (Redirect ''project_list''))))))
      else ret (Inr project))"

definition project_detail :: "env \<Rightarrow> request \<Rightarrow> nat \<Rightarrow> response action" where
  "project_detail env request project_id =
     login_required request (\<lambda>u.
       seq (get_object_or_404 env project_id) (\<lambda>project.
       seq (if http_method request = ''POST'' then project_detail_post env request u project
            else ret (Inr project)) (\<lambda>r.
       case r of
         Inl resp \<Rightarrow> ret resp
       | Inr project \<Rightarrow>
           seq (cw_log_project_activity env ''VIEW'' (json_of (name project)) (JStr (username u))
                  (JObj [(''project_id'', JInt (int (pk project))),
                         (''status'', json_of (status project))])) (\<lambda>_.
           seq (if document_truthy (document project)
                then s3_get_file_url env (the (document project))
                else ret None) (\<lambda>document_url.
           ret (Render ''construction/project_detail.html''
                  (ProjectContext project document_url)))))))"

section \<open>Shorthand for the statements\<close>

text \<open>
  Nothing below is code of the repository: these are names for the terms the theorems
  speak about.  \<open>new_events s s'\<close> are the collaborator calls made between two states.
\<close>

definition new_events :: "state \<Rightarrow> state \<Rightarrow> event list" where
  "new_events s s' = drop (length (trace s)) (trace s')"

fun is_SendEmail :: "event \<Rightarrow> bool" where
  "is_SendEmail (SendEmail t sj bd sd) = True"
| "is_SendEmail _ = False"

fun is_SendSns :: "event \<Rightarrow> bool" where
  "is_SendSns (SendSns t m sj) = True"
| "is_SendSns _ = False"

text \<open>The row the database writes for an instance that it accepts.\<close>

definition stored :: "env \<Rightarrow> project \<Rightarrow> project" where
  "stored env p = projr (to_row env p)"

text \<open>The instance \<open>project_create\<close> builds from a submission, and the name of its file.\<close>

definition submitted_project :: "env \<Rightarrow> request \<Rightarrow> user \<Rightarrow> state \<Rightarrow> project" where
  "submitted_project env request u s =
     new_project (next_id s) (clock env) (POST request ''name'') (POST request ''description'')
       (POST request ''location'') (POST request ''start_date'') (POST request ''end_date'')
       (POST request ''budget'') (Passed (POST request ''status''))
       (Passed (POST request ''priority'')) (user_id u)"

definition document_key :: "nat \<Rightarrow> uploaded_file \<Rightarrow> string" where
  "document_key i d = ''project_documents/'' @ show_nat i @ ''_'' @ file_name d"

text \<open>A file came with the request and the Document Store took it under the key of project \<open>i\<close>.\<close>

definition uploaded :: "env \<Rightarrow> request \<Rightarrow> nat \<Rightarrow> bool" where
  "uploaded env request i \<longleftrightarrow>
     file_truthy (FILES request ''document'') \<and>
     projr (upload_file (s3_manager env) (the (FILES request ''document''))
              (document_key i (the (FILES request ''document''))))"

definition with_document :: "env \<Rightarrow> request \<Rightarrow> project \<Rightarrow> project" where
  "with_document env request p =
     p\<lparr>document := Some (document_key (pk p) (the (FILES request ''document''))),
       updated_at := clock env\<rparr>"

text \<open>The instance \<open>project_detail\<close> saves on an update of the instance \<open>old\<close> it has read.\<close>

definition updated_project :: "env \<Rightarrow> request \<Rightarrow> project \<Rightarrow> project" where
  "updated_project env request old =
     old\<lparr>name := POST request ''name'', description := POST request ''description'',
         location := POST request ''location'', start_date := POST request ''start_date'',
         end_date := POST request ''end_date'', budget := POST request ''budget'',
         status := POST request ''status'', priority := POST request ''priority'',
         document := (if uploaded env request (pk old)
                      then Some (document_key (pk old) (the (FILES request ''document'')))
                      else document old),
         updated_at := clock env\<rparr>"

definition upload_events :: "request \<Rightarrow> user \<Rightarrow> nat \<Rightarrow> bool \<Rightarrow> event list" where
  "upload_events request u i up =
     (if file_truthy (FILES request ''document'')
      then [UploadFile (the (FILES request ''document''))
              (document_key i (the (FILES request ''document'')))]
      else [])
     @ (if up
        then [LogActivity ''FILE_UPLOAD'' (json_of (POST request ''name'')) (JStr (username u))
                (JObj [(''filename'', JStr (file_name (the (FILES request ''document'')))),
                       (''action'', JStr ''file_upload'')])]
        else [])"

definition create_events :: "env \<Rightarrow> request \<Rightarrow> user \<Rightarrow> event list" where
  "create_events env request u =
     [LogActivity ''CREATE'' (json_of (POST request ''name'')) (JStr (username u))
        (JObj [(''budget'', JStr (py_str (POST request ''budget''))),
               (''status'', json_of (POST request ''status'')),
               (''priority'', json_of (POST request ''priority''))]),
      SendEmail (if email u \<noteq> [] then email u else AWS_SES_SENDER_EMAIL env)
        (''New Construction Project Created: '' @ py_str (POST request ''name''))
        (''A new construction project '' @ dq @ py_str (POST request ''name'') @ dq
           @ '' has been created with budget $'' @ py_str (POST request ''budget'') @ ''.'')
        (AWS_SES_SENDER_EMAIL env)]
     @ (if POST request ''priority'' = Some ''High'' \<or> POST request ''priority'' = Some ''Critical''
        then [SendSns (AWS_SNS_TOPIC_ARN env)
                (''High priority construction project created: '' @ py_str (POST request ''name'')
                   @ '' (Priority: '' @ py_str (POST request ''priority'') @ '')'')
                (Some ''High Priority Project Alert'')]
        else [])"

definition update_event :: "request \<Rightarrow> user \<Rightarrow> event" where
  "update_event request u =
     LogActivity ''UPDATE'' (json_of (POST request ''name'')) (JStr (username u))
       (JObj [(''budget'', JStr (py_str (POST request ''budget''))),
              (''status'', json_of (POST request ''status''))])"

definition view_events :: "user \<Rightarrow> project \<Rightarrow> event list" where
  "view_events u p =
     LogActivity ''VIEW'' (json_of (name p)) (JStr (username u))
       (JObj [(''project_id'', JInt (int (pk p))), (''status'', json_of (status p))])
     # (if document_truthy (document p) then [GetFileUrl (the (document p))] else [])"

definition document_url :: "env \<Rightarrow> project \<Rightarrow> string option" where
  "document_url env p =
     (if document_truthy (document p)
      then projr (get_file_url (s3_manager env) (the (document p)) 3600)
      else None)"

text \<open>
  The instance a successful create has written last; in a well-formed table its row is the
  one more row, at the end.
\<close>

definition created_project :: "env \<Rightarrow> request \<Rightarrow> user \<Rightarrow> state \<Rightarrow> project" where
  "created_project env request u s =
     (if uploaded env request (next_id s)
      then with_document env request (submitted_project env request u s)
      else submitted_project env request u s)"

text \<open>
  The table as the views keep it: every id was handed out by the sequence, and no two rows
  share an id (the primary key).
\<close>

definition wf_state :: "state \<Rightarrow> bool" where
  "wf_state s \<longleftrightarrow> list_all (\<lambda>r. pk r < next_id s) (projects s) \<and> distinct (map pk (projects s))"

text \<open>The routes of \<open>urls.py\<close> to the three project views, and a run of requests one after another.\<close>

datatype route = ListRoute | CreateRoute | DetailRoute nat

fun dispatch :: "route \<Rightarrow> env \<Rightarrow> request \<Rightarrow> response action" where
  "dispatch ListRoute env request = project_list env request"
| "dispatch CreateRoute env request = project_create env request"
| "dispatch (DetailRoute project_id) env request = project_detail env request project_id"

fun serve :: "(route \<times> env \<times> request) list \<Rightarrow> state \<Rightarrow> state" where
  "serve [] s = s"
| "serve ((rt, env, request) # rest) s = serve rest (snd (dispatch rt env request s))"

text \<open>A call on the Audit Sink with the acting user blanked.\<close>

fun anonymise :: "event \<Rightarrow> event" where
  "anonymise (LogActivity a p u d) = LogActivity a p JNull d"
| "anonymise e = e"

section \<open>Sample inputs\<close>

text \<open>
  Collaborators whose every call returns normally, except that the Document Store takes
  a file only when \<open>store_up\<close> holds.  The database layer is given for the texts used
  below: the decimal column rounds \<open>1.005\<close> to two places, refuses \<open>abc\<close> and keeps any
  other text, also one of more than twelve digits, which it then cannot read back; the
  date column keeps a text as it is.
\<close>

definition sample_decimal_column :: "string \<Rightarrow> exn + string" where
  "sample_decimal_column t =
     (if t = ''1.005'' then Inr ''1.00''
      else if t = ''abc'' then Inl ValidationError
      else Inr t)"

definition sample_decimal_read :: "string \<Rightarrow> exn + string" where
  "sample_decimal_read t = (if length t > 13 then Inl InvalidOperation else Inr t)"

definition sample_logger :: cloudwatch_logger where
  "sample_logger =
     \<lparr>log_group_name = ''construction-logs'', log_region_name = ''eu-north-1'',
      logs = \<lparr>describe_log_groups = (\<lambda>_. Inr ()), create_log_group = (\<lambda>_. Inr ()),
              describe_log_streams = (\<lambda>_ _. Inr ()), create_log_stream = (\<lambda>_ _. Inr ()),
              put_log_events = (\<lambda>_ _ _ _. Inr ())\<rparr>,
      log_stream_name = ''construction-app-2024-01-01''\<rparr>"

definition sample_s3 :: "bool \<Rightarrow> s3_file_manager" where
  "sample_s3 store_up =
     \<lparr>bucket_name = ''construction-bucket'', s3_region_name = ''eu-north-1'',
      s3 = \<lparr>upload_fileobj = (\<lambda>_ _ _. if store_up then Inr () else Inl (ClientError ''AccessDenied'')),
            generate_presigned_url = (\<lambda>b k _. Inr (''https://'' @ b @ ''/'' @ k))\<rparr>\<rparr>"

definition sample_notifier :: notification_manager where
  "sample_notifier =
     \<lparr>nm_region_name = ''eu-north-1'', ses_send_email = (\<lambda>_ _ _ _. Inr ()),
      sns_publish = (\<lambda>_ _ _. Inr ())\<rparr>"

definition sample_env :: "bool \<Rightarrow> nat \<Rightarrow> env" where
  "sample_env store_up now =
     \<lparr>cloudwatch_logger = sample_logger, s3_manager = sample_s3 store_up,
      notification_manager = sample_notifier,
      AWS_SES_SENDER_EMAIL = ''noreply@example.com'', AWS_SNS_TOPIC_ARN = ''arn:aws:sns:alerts'',
      db_prep = (\<lambda>_. None), date_column = (\<lambda>t. Inr t),
      decimal_column = sample_decimal_column, decimal_read = sample_decimal_read,
      clock = now\<rparr>"

definition alice :: user where
  "alice = \<lparr>user_id = 1, username = ''alice'', email = ''alice@example.com''\<rparr>"

definition bob :: user where
  "bob = \<lparr>user_id = 2, username = ''bob'', email = []\<rparr>"

definition sample_form :: "string \<Rightarrow> string \<Rightarrow> (string \<times> string) list" where
  "sample_form name' priority' =
     [(''name'', name'), (''description'', ''Test Description''), (''location'', ''Test Location''),
      (''start_date'', ''2024-01-01''), (''end_date'', ''2024-12-31''), (''budget'', ''100000.00''),
      (''status'', ''In Progress''), (''priority'', priority')]"

definition sample_file :: uploaded_file where
  "sample_file = \<lparr>file_name = ''plan.pdf'', file_content = ''%PDF''\<rparr>"

definition post_request :: "user \<Rightarrow> (string \<times> string) list \<Rightarrow> uploaded_file option \<Rightarrow> request" where
  "post_request u form file =
     \<lparr>http_method = ''POST'', user = Some u, POST = map_of form,
      FILES = (\<lambda>k. if k = ''document'' then file else None)\<rparr>"

definition get_request :: "user \<Rightarrow> request" where
  "get_request u = \<lparr>http_method = ''GET'', user = Some u, POST = (\<lambda>_. None), FILES = (\<lambda>_. None)\<rparr>"

definition empty_db :: state where
  "empty_db = \<lparr>projects = [], next_id = 1, trace = [], messages = []\<rparr>"

text \<open>A table of one project, owned by alice, with a stored document.\<close>

definition sample_project :: project where
  "sample_project =
     \<lparr>pk = 1, name = Some ''Old Name'', description = Some ''Old Description'',
      location = Some ''Old Location'', start_date = Some ''2023-01-01'',
      end_date = Some ''2023-12-31'', budget = Some ''50000.00'', status = Some ''Planning'',
      priority = Some ''Low'', manager = 1, document = Some ''project_documents/1_old.pdf'',
      created_at = 3, updated_at = 3\<rparr>"

definition one_project_db :: state where
  "one_project_db = \<lparr>projects = [sample_project], next_id = 2, trace = [], messages = []\<rparr>"

section \<open>The wrappers never raise\<close>

lemma ensure_log_group_exists_returns:
  "\<exists>b. ensure_log_group_exists self = Inr b"
  by (auto simp: ensure_log_group_exists_def try_except_def and_then_def split: sum.splits)

lemma ensure_log_stream_exists_returns:
  "\<exists>b. ensure_log_stream_exists self = Inr b"
  by (auto simp: ensure_log_stream_exists_def try_except_def and_then_def split: sum.splits)

lemma log_project_activity_returns:
  "\<exists>b. log_project_activity self t a p u d = Inr b"
proof -
  obtain g where g: "ensure_log_group_exists self = Inr g"
    using ensure_log_group_exists_returns by blast
  obtain st where st: "ensure_log_stream_exists self = Inr st"
    using ensure_log_stream_exists_returns by blast
  show ?thesis
    by (auto simp: log_project_activity_def g st and_then_def try_except_def Let_def
        split: sum.splits)
qed

lemma upload_file_returns: "\<exists>b. upload_file self f k = Inr b"
  by (auto simp: upload_file_def try_except_def and_then_def split: sum.splits)

lemma get_file_url_returns: "\<exists>r. get_file_url self k ttl = Inr r"
  by (auto simp: get_file_url_def try_except_def and_then_def split: sum.splits)

lemma send_email_returns: "\<exists>ok. send_email self t sj bd sd = Inr ok"
  by (auto simp: send_email_def try_except_def and_then_def split: sum.splits)

lemma send_sns_notification_returns: "\<exists>b. send_sns_notification self a m sb = Inr b"
  by (auto simp: send_sns_notification_def try_except_def and_then_def Let_def split: sum.splits)



section \<open>Running the views\<close>

lemma seq_ret [simp]: "seq (ret v) f = f v"
  by (rule ext) (simp add: seq_def ret_def)

lemma seq_assoc: "seq (seq m f) g = seq m (\<lambda>x. seq (f x) g)"
  by (rule ext) (simp add: seq_def split: prod.splits sum.splits)

lemma seq_if: "seq (if c then a else b) f = (if c then seq a f else seq b f)"
  by simp

lemma ret_apply: "ret v s = (Inr v, s)"
  by (simp add: ret_def)

lemma seq_Inr_fun: "seq (\<lambda>a. (Inr v, g a)) f s = f v (g s)"
  by (simp add: seq_def)

lemma seq_Inl_fun: "seq (\<lambda>a. (Inl e, g a)) f s = (Inl e, g s)"
  by (simp add: seq_def)

lemma seq_cw_log_project_activity [simp]:
  "seq (cw_log_project_activity env a p u d) f s =
     f (projr (log_project_activity (cloudwatch_logger env) (clock env) a p u d))
       (s\<lparr>trace := trace s @ [LogActivity a p u d]\<rparr>)"
proof -
  obtain b where "log_project_activity (cloudwatch_logger env) (clock env) a p u d = Inr b"
    using log_project_activity_returns by blast
  then show ?thesis by (simp add: seq_def cw_log_project_activity_def)
qed

lemma seq_cw_log_file_upload [simp]:
  "seq (cw_log_file_upload env fn u p) f s =
     f (projr (log_file_upload (cloudwatch_logger env) (clock env) fn u p))
       (s\<lparr>trace := trace s @ [LogActivity ''FILE_UPLOAD'' p u
                                 (JObj [(''filename'', fn), (''action'', JStr ''file_upload'')])]\<rparr>)"
proof -
  obtain b where "log_file_upload (cloudwatch_logger env) (clock env) fn u p = Inr b"
    unfolding log_file_upload_def Let_def using log_project_activity_returns by blast
  then show ?thesis by (simp add: seq_def cw_log_file_upload_def)
qed

lemma seq_s3_upload_file [simp]:
  "seq (s3_upload_file env d k) f s =
     f (projr (upload_file (s3_manager env) d k)) (s\<lparr>trace := trace s @ [UploadFile d k]\<rparr>)"
proof -
  obtain b where "upload_file (s3_manager env) d k = Inr b"
    using upload_file_returns by blast
  then show ?thesis by (simp add: seq_def s3_upload_file_def)
qed

lemma seq_s3_get_file_url [simp]:
  "seq (s3_get_file_url env k) f s =
     f (projr (get_file_url (s3_manager env) k 3600)) (s\<lparr>trace := trace s @ [GetFileUrl k]\<rparr>)"
proof -
  obtain b where "get_file_url (s3_manager env) k 3600 = Inr b"
    using get_file_url_returns by blast
  then show ?thesis by (simp add: seq_def s3_get_file_url_def)
qed

lemma seq_nm_send_email [simp]:
  "seq (nm_send_email env t sj bd sd) f s =
     f (projr (send_email (notification_manager env) t sj bd sd))
       (s\<lparr>trace := trace s @ [SendEmail t sj bd sd]\<rparr>)"
proof -
  obtain b where "send_email (notification_manager env) t sj bd sd = Inr b"
    using send_email_returns by blast
  then show ?thesis by (simp add: seq_def nm_send_email_def)
qed

lemma seq_nm_send_sns_notification [simp]:
  "seq (nm_send_sns_notification env t m sj) f s =
     f (projr (send_sns_notification (notification_manager env) t m sj))
       (s\<lparr>trace := trace s @ [SendSns t m sj]\<rparr>)"
proof -
  obtain b where "send_sns_notification (notification_manager env) t m sj = Inr b"
    using send_sns_notification_returns by blast
  then show ?thesis by (simp add: seq_def nm_send_sns_notification_def)
qed

lemma seq_messages_success [simp]:
  "seq (messages_success m) f s = f () (s\<lparr>messages := messages s @ [m]\<rparr>)"
  by (simp add: seq_def messages_success_def)

lemma seq_delete [simp]:
  "seq (delete p) f s = f () (s\<lparr>projects := filter (\<lambda>r. pk r \<noteq> pk p) (projects s)\<rparr>)"
  by (simp add: seq_def delete_def)

lemma new_project_fields [simp]:
  "pk (new_project i t n d l sd ed b st pr m) = i"
  "name (new_project i t n d l sd ed b st pr m) = n"
  "description (new_project i t n d l sd ed b st pr m) = d"
  "location (new_project i t n d l sd ed b st pr m) = l"
  "start_date (new_project i t n d l sd ed b st pr m) = sd"
  "end_date (new_project i t n d l sd ed b st pr m) = ed"
  "budget (new_project i t n d l sd ed b st pr m) = b"
  "status (new_project i t n d l sd ed b st pr m) = field_value status_default st"
  "priority (new_project i t n d l sd ed b st pr m) = field_value priority_default pr"
  "manager (new_project i t n d l sd ed b st pr m) = m"
  "document (new_project i t n d l sd ed b st pr m) = None"
  "created_at (new_project i t n d l sd ed b st pr m) = t"
  "updated_at (new_project i t n d l sd ed b st pr m) = t"
  by (simp_all add: new_project_def)

lemma seq_objects_create:
  "seq (objects_create env n d l sd ed b st pr m) f s =
     (case to_row env (new_project (next_id s) (clock env) n d l sd ed b st pr m) of
        Inl e \<Rightarrow> (Inl e, s)
      | Inr row \<Rightarrow> f (new_project (next_id s) (clock env) n d l sd ed b st pr m)
                (s\<lparr>projects := projects s @ [row], next_id := next_id s + 1\<rparr>))"
  by (simp add: seq_def objects_create_def Let_def split: sum.splits)

lemma seq_save:
  "seq (save env p) f s =
     (if list_ex (\<lambda>r. pk r = pk p) (projects s)
      then (case to_row env (p\<lparr>updated_at := clock env\<rparr>) of
              Inl e \<Rightarrow> (Inl e, s)
            | Inr row \<Rightarrow> f (p\<lparr>updated_at := clock env\<rparr>)
                (s\<lparr>projects := map (\<lambda>r. if pk r = pk p then row else r) (projects s)\<rparr>))
      else (case to_row env (p\<lparr>updated_at := clock env, created_at := clock env\<rparr>) of
              Inl e \<Rightarrow> (Inl e, s)
            | Inr row \<Rightarrow> f (p\<lparr>updated_at := clock env, created_at := clock env\<rparr>)
                (s\<lparr>projects := projects s @ [row]\<rparr>)))"
  by (simp add: seq_def save_def Let_def split: sum.splits)

lemma seq_get_object_or_404:
  "seq (get_object_or_404 env i) f s =
     (case find (\<lambda>r. pk r = i) (projects s) of
        None \<Rightarrow> (Inl Http404, s)
      | Some row \<Rightarrow> (case from_row env row of Inl e \<Rightarrow> (Inl e, s) | Inr p \<Rightarrow> f p s))"
  by (simp add: seq_def get_object_or_404_def split: option.splits sum.splits)

lemma seq_render_projects:
  "seq (render_projects env rows) f s =
     (case read_all env rows of Inl e \<Rightarrow> (Inl e, s) | Inr ps \<Rightarrow> f ps s)"
  by (simp add: seq_def render_projects_def split: sum.splits)

lemma seq_if_fun:
  "seq (\<lambda>a. if c a then m1 a else m2 a) f s = (if c s then seq m1 f s else seq m2 f s)"
  by (simp add: seq_def)

lemmas run_simps = seq_assoc ret_apply seq_objects_create seq_save seq_get_object_or_404
  seq_render_projects if_distribR seq_if seq_Inr_fun seq_Inl_fun seq_if_fun

lemmas shorthand_defs = submitted_project_def document_key_def uploaded_def with_document_def
  updated_project_def upload_events_def create_events_def update_event_def view_events_def
  document_url_def

subsection \<open>Writing and reading a row\<close>

lemma db_check_Some: "db_check env p = Some e \<Longrightarrow> to_row env p = Inl e"
  by (simp add: db_check_def split: sum.splits)

lemma db_check_None: "db_check env p = None \<Longrightarrow> to_row env p = Inr (stored env p)"
  by (simp add: db_check_def stored_def split: sum.splits)

lemma column_value_None [simp]: "column_value adapt None = Inr None"
  by (simp add: column_value_def)

lemma column_value_Inr_Some:
  "column_value adapt v = Inr (Some t') \<longleftrightarrow> (\<exists>t. v = Some t \<and> adapt t = Inr t')"
  by (auto simp: column_value_def and_then_def split: option.splits sum.splits)

lemma column_value_Inr_None: "column_value adapt v = Inr None \<longleftrightarrow> v = None"
  by (auto simp: column_value_def and_then_def split: option.splits sum.splits)

text \<open>
  What the row of an accepted instance holds: the three typed columns hold what the
  column keeps of the instance's value, every other column the instance's value.
\<close>

lemma stored_row:
  assumes "db_check env p = None"
  shows "stored env p = p\<lparr>start_date := start_date (stored env p),
                          end_date := end_date (stored env p),
                          budget := budget (stored env p)\<rparr>"
    and "column_value (date_column env) (start_date p) = Inr (start_date (stored env p))"
    and "column_value (date_column env) (end_date p) = Inr (end_date (stored env p))"
    and "column_value (decimal_column env) (budget p) = Inr (budget (stored env p))"
    and "\<not> has_null (stored env p)"
  using assms
  by (auto simp: db_check_def stored_def to_row_def and_then_def Let_def
      split: sum.splits option.splits if_splits)

lemma stored_fields:
  assumes "db_check env p = None"
  shows "pk (stored env p) = pk p" "name (stored env p) = name p"
    "description (stored env p) = description p" "location (stored env p) = location p"
    "status (stored env p) = status p" "priority (stored env p) = priority p"
    "manager (stored env p) = manager p" "document (stored env p) = document p"
    "created_at (stored env p) = created_at p" "updated_at (stored env p) = updated_at p"
  by (subst stored_row(1)[OF assms], simp)+

lemma stored_not_null:
  assumes "db_check env p = None"
  shows "\<not> has_null p"
proof -
  from stored_row(5)[OF assms] stored_fields[OF assms]
    stored_row(2-4)[OF assms]
  show ?thesis
    by (auto simp: has_null_def column_value_Inr_Some)
qed

lemma to_row_document:
  "db_check env (p\<lparr>document := d, updated_at := t\<rparr>) = None \<Longrightarrow> db_check env p = None \<Longrightarrow>
   stored env (p\<lparr>document := d, updated_at := t\<rparr>)
     = (stored env p)\<lparr>document := d, updated_at := t\<rparr>"
  by (auto simp: db_check_def stored_def to_row_def and_then_def Let_def
      split: sum.splits option.splits if_splits)

lemma from_row_fields:
  assumes "from_row env row = Inr p"
  shows "p = row\<lparr>budget := budget p\<rparr>"
    and "column_value (decimal_read env) (budget row) = Inr (budget p)"
  using assms
  by (auto simp: from_row_def and_then_def split: sum.splits)

lemma from_row_keeps:
  assumes "from_row env row = Inr p"
  shows "pk p = pk row" "name p = name row" "description p = description row"
    "location p = location row" "start_date p = start_date row" "end_date p = end_date row"
    "status p = status row" "priority p = priority row" "manager p = manager row"
    "document p = document row" "created_at p = created_at row" "updated_at p = updated_at row"
  by (subst from_row_fields(1)[OF assms], simp)+

lemma find_pk:
  assumes "find (\<lambda>r. pk r = i) xs = Some old"
  shows "pk old = i" "old \<in> set xs" "list_ex (\<lambda>r. pk r = i) xs"
proof -
  from assms show "pk old = i" by (auto simp: find_Some_iff)
  from assms show "old \<in> set xs" by (auto simp: find_Some_iff)
  then show "list_ex (\<lambda>r. pk r = i) xs"
    using \<open>pk old = i\<close> by (auto simp: list_ex_iff)
qed

subsection \<open>The views, branch by branch\<close>

lemma project_create_post:
  assumes u: "user request = Some u" and m: "http_method request = ''POST''"
  shows "project_create env request s =
     (case db_check env (submitted_project env request u s) of
        Some e \<Rightarrow> (Inl e, s)
      | None \<Rightarrow>
          if uploaded env request (next_id s) then
            (case db_check env (with_document env request (submitted_project env request u s)) of
               Some e \<Rightarrow>
                 (Inl e, s\<lparr>projects := projects s @ [stored env (submitted_project env request u s)],
                           next_id := Suc (next_id s),
                           trace := trace s @ upload_events request u (next_id s) False\<rparr>)
             | None \<Rightarrow>
                 (Inr (Redirect ''project_list''),
                  s\<lparr>projects :=
                      map (\<lambda>r. if pk r = next_id s
                                then stored env
                                       (with_document env request (submitted_project env request u s))
                                else r)
                        (projects s @ [stored env (submitted_project env request u s)]),
                    next_id := Suc (next_id s),
                    trace := trace s @ upload_events request u (next_id s) True
                               @ create_events env request u,
                    messages := messages s @ [''Project '' @ dq @ py_str (POST request ''name'')
                                                @ dq @ '' created successfully!'']\<rparr>))
          else
            (Inr (Redirect ''project_list''),
             s\<lparr>projects := projects s @ [stored env (submitted_project env request u s)],
               next_id := Suc (next_id s),
               trace := trace s @ upload_events request u (next_id s) False
                          @ create_events env request u,
               messages := messages s @ [''Project '' @ dq @ py_str (POST request ''name'')
                                           @ dq @ '' created successfully!'']\<rparr>))"
proof -
  note defs = project_create_def login_required_def Let_def run_simps shorthand_defs
  let ?hi = "POST request ''priority'' = Some ''High'' \<or> POST request ''priority'' = Some ''Critical''"
  let ?ft = "file_truthy (FILES request ''document'')"
  let ?up = "projr (upload_file (s3_manager env) (the (FILES request ''document''))
              (document_key (next_id s) (the (FILES request ''document''))))"
  let ?sub = "submitted_project env request u s"
  show ?thesis
  proof (cases "db_check env ?sub")
    case (Some e)
    then show ?thesis using u m db_check_Some[OF Some] by (simp add: defs)
  next
    case db: None
    note row = db_check_None[OF db]
    have pk: "pk (stored env ?sub) = next_id s"
      using stored_fields(1)[OF db] by (simp add: submitted_project_def)
    show ?thesis
    proof (cases "?ft \<and> ?up")
      case False
      then show ?thesis using u m db row
        by (cases ?hi; cases ?ft) (clarsimp simp: defs)+
    next
      case True
      show ?thesis
      proof (cases "db_check env (with_document env request ?sub)")
        case (Some e)
        then show ?thesis using True u m db row pk db_check_Some[OF Some]
          by (cases ?hi) (clarsimp simp: defs)+
      next
        case None
        then show ?thesis using True u m db row pk db_check_None[OF None]
          by (cases ?hi) (clarsimp simp: defs)+
      qed
    qed
  qed
qed

lemma project_detail_update:
  assumes u: "user request = Some u" and m: "http_method request = ''POST''"
    and a: "POST request ''action'' = Some ''update''"
    and f: "find (\<lambda>r. pk r = i) (projects s) = Some row"
    and rd: "from_row env row = Inr old"
  shows "project_detail env request i s =
     (case db_check env (updated_project env request old) of
        Some e \<Rightarrow>
          (Inl e, s\<lparr>trace := trace s @ upload_events request u i (uploaded env request i)\<rparr>)
      | None \<Rightarrow>
          (Inr (Render ''construction/project_detail.html''
                  (ProjectContext (updated_project env request old)
                     (document_url env (updated_project env request old)))),
           s\<lparr>projects := map (\<lambda>r. if pk r = i then stored env (updated_project env request old)
                                   else r)
                             (projects s),
             trace := trace s @ upload_events request u i (uploaded env request i)
               @ [update_event request u]
               @ view_events u (updated_project env request old),
             messages := messages s @ [''Project '' @ dq @ py_str (POST request ''name'') @ dq
                                         @ '' updated successfully!'']\<rparr>))"
proof -
  note pk = find_pk[OF f]
  have pko: "pk old = i"
    using from_row_keeps(1)[OF rd] pk(1) by simp
  note defs = project_detail_def project_detail_post_def login_required_def Let_def run_simps
    shorthand_defs
  let ?ft = "file_truthy (FILES request ''document'')"
  let ?up = "projr (upload_file (s3_manager env) (the (FILES request ''document''))
              (document_key i (the (FILES request ''document''))))"
  let ?new = "updated_project env request old"
  show ?thesis
  proof (cases "db_check env ?new")
    case (Some e)
    note w = db_check_Some[OF Some]
    show ?thesis
    proof (cases "?ft \<and> ?up")
      case True
      then show ?thesis using u m a f rd pk pko Some w
        by (clarsimp simp: defs)
    next
      case False
      then show ?thesis using u m a f rd pk pko Some w
        by (cases ?ft) (clarsimp simp: defs)+
    qed
  next
    case None
    note w = db_check_None[OF None]
    show ?thesis
    proof (cases "?ft \<and> ?up")
      case True
      then show ?thesis using u m a f rd pk pko None w
        by (clarsimp simp: defs)
    next
      case False
      then show ?thesis using u m a f rd pk pko None w
        by (cases ?ft; cases "document_truthy (document old)") (clarsimp simp: defs)+
    qed
  qed
qed

lemma project_detail_delete:
  assumes u: "user request = Some u" and m: "http_method request = ''POST''"
    and a: "POST request ''action'' = Some ''delete''"
    and f: "find (\<lambda>r. pk r = i) (projects s) = Some row"
    and rd: "from_row env row = Inr old"
  shows "project_detail env request i s =
     (Inr (Redirect ''project_list''),
      s\<lparr>projects := filter (\<lambda>r. pk r \<noteq> i) (projects s),
        trace := trace s @ [LogActivity ''DELETE'' (json_of (name old)) (JStr (username u)) (JObj [])],
        messages := messages s @ [''Project '' @ dq @ py_str (name old) @ dq
                                    @ '' deleted successfully!'']\<rparr>)"
  using u m a f rd find_pk(1)[OF f] from_row_keeps(1)[OF rd]
  by (clarsimp simp: project_detail_def project_detail_post_def login_required_def Let_def run_simps)

lemma project_detail_view:
  assumes u: "user request = Some u"
    and a: "http_method request \<noteq> ''POST'' \<or>
            (POST request ''action'' \<noteq> Some ''update'' \<and> POST request ''action'' \<noteq> Some ''delete'')"
    and f: "find (\<lambda>r. pk r = i) (projects s) = Some row"
    and rd: "from_row env row = Inr old"
  shows "project_detail env request i s =
     (Inr (Render ''construction/project_detail.html'' (ProjectContext old (document_url env old))),
      s\<lparr>trace := trace s @ view_events u old\<rparr>)"
  using u a f rd
  by (cases "http_method request = ''POST''"; cases "document_truthy (document old)")
     (clarsimp simp: project_detail_def project_detail_post_def login_required_def Let_def run_simps
        shorthand_defs)+

lemma project_detail_not_found:
  assumes "user request = Some u" and "find (\<lambda>r. pk r = i) (projects s) = None"
  shows "project_detail env request i s = (Inl Http404, s)"
  using assms by (simp add: project_detail_def login_required_def run_simps)

lemma project_detail_unreadable:
  assumes "user request = Some u" and "find (\<lambda>r. pk r = i) (projects s) = Some row"
    and "from_row env row = Inl e"
  shows "project_detail env request i s = (Inl e, s)"
  using assms by (simp add: project_detail_def login_required_def run_simps)

lemma anonymous_redirected:
  assumes "user request = None"
  shows "project_list env request s = (Inr (Redirect ''user_login''), s)"
    and "project_create env request s = (Inr (Redirect ''user_login''), s)"
    and "project_detail env request i s = (Inr (Redirect ''user_login''), s)"
  using assms
  by (simp_all add: project_list_def project_create_def project_detail_def login_required_def ret_def)

lemma project_create_get:
  assumes "user request = Some u" and "http_method request \<noteq> ''POST''"
  shows "project_create env request s = (Inr (Render ''construction/project_create.html'' NoContext), s)"
  using assms by (simp add: project_create_def login_required_def ret_def)

lemma project_list_authenticated:
  assumes "user request = Some u"
  shows "project_list env request s =
     (case read_all env (objects_all s) of
        Inl e \<Rightarrow> Inl e
      | Inr listed \<Rightarrow> Inr (Render ''construction/project_list.html'' (ProjectsContext listed)),
      s\<lparr>trace := trace s @ [LogActivity ''VIEW'' (JStr ''PROJECT_LIST'') (JStr (username u))
                               (JObj [(''total_projects'', JInt (int (length (objects_all s))))])]\<rparr>)"
  using assms
  by (cases "read_all env (objects_all s)")
     (simp_all add: project_list_def login_required_def Let_def run_simps)

section \<open>The outcomes of a request\<close>

lemma project_create_cases
  [consumes 1, case_names anonymous form rejected stored save_failed stored_with_document]:
  assumes "project_create env request s = (r, s')"
  obtains
    (anonymous) "user request = None" "r = Inr (Redirect ''user_login'')" "s' = s"
  | (form) u where "user request = Some u" "http_method request \<noteq> ''POST''"
      "r = Inr (Render ''construction/project_create.html'' NoContext)" "s' = s"
  | (rejected) u e where "user request = Some u" "http_method request = ''POST''"
      "db_check env (submitted_project env request u s) = Some e" "r = Inl e" "s' = s"
  | (stored) u where "user request = Some u" "http_method request = ''POST''"
      "db_check env (submitted_project env request u s) = None"
      "\<not> uploaded env request (next_id s)"
      "r = Inr (Redirect ''project_list'')"
      "s' = s\<lparr>projects := projects s @ [stored env (submitted_project env request u s)],
               next_id := Suc (next_id s),
               trace := trace s @ upload_events request u (next_id s) False
                          @ create_events env request u,
               messages := messages s @ [''Project '' @ dq @ py_str (POST request ''name'')
                                           @ dq @ '' created successfully!'']\<rparr>"
  | (save_failed) u e where "user request = Some u" "http_method request = ''POST''"
      "db_check env (submitted_project env request u s) = None"
      "uploaded env request (next_id s)"
      "db_check env (with_document env request (submitted_project env request u s)) = Some e"
      "r = Inl e"
      "s' = s\<lparr>projects := projects s @ [stored env (submitted_project env request u s)],
               next_id := Suc (next_id s),
               trace := trace s @ upload_events request u (next_id s) False\<rparr>"
  | (stored_with_document) u where "user request = Some u" "http_method request = ''POST''"
      "db_check env (submitted_project env request u s) = None"
      "uploaded env request (next_id s)"
      "db_check env (with_document env request (submitted_project env request u s)) = None"
      "r = Inr (Redirect ''project_list'')"
      "s' = s\<lparr>projects :=
                 map (\<lambda>r. if pk r = next_id s
                           then stored env
                                  (with_document env request (submitted_project env request u s))
                           else r)
                   (projects s @ [stored env (submitted_project env request u s)]),
               next_id := Suc (next_id s),
               trace := trace s @ upload_events request u (next_id s) True
                          @ create_events env request u,
               messages := messages s @ [''Project '' @ dq @ py_str (POST request ''name'')
                                           @ dq @ '' created successfully!'']\<rparr>"
proof (cases "user request")
  case None
  from assms anonymous_redirected(2)[OF None, of env s]
  have "r = Inr (Redirect ''user_login'')" "s' = s" by simp_all
  then show ?thesis by (rule anonymous[OF None])
next
  case (Some u)
  show ?thesis
  proof (cases "http_method request = ''POST''")
    case False
    from assms project_create_get[OF Some False, of env s]
    have "r = Inr (Render ''construction/project_create.html'' NoContext)" "s' = s" by simp_all
    then show ?thesis by (rule form[OF Some False])
  next
    case True
    note eq = project_create_post[OF Some True, of env s]
    show ?thesis
    proof (cases "db_check env (submitted_project env request u s)")
      case e: (Some e)
      from assms eq e have "r = Inl e" "s' = s" by simp_all
      then show ?thesis by (rule rejected[OF Some True e])
    next
      case db: None
      show ?thesis
      proof (cases "uploaded env request (next_id s)")
        case False
        from assms eq db False show ?thesis
          by (intro stored[OF Some True db False]) simp_all
      next
        case up: True
        show ?thesis
        proof (cases "db_check env (with_document env request (submitted_project env request u s))")
          case e: (Some e)
          from assms eq db up e show ?thesis
            by (intro save_failed[OF Some True db up e]) simp_all
        next
          case db2: None
          from assms eq db up db2 show ?thesis
            by (intro stored_with_document[OF Some True db up db2]) simp_all
        qed
      qed
    qed
  qed
qed

lemma project_detail_cases
  [consumes 1, case_names anonymous not_found unreadable view update_rejected updated deleted]:
  assumes "project_detail env request i s = (r, s')"
  obtains
    (anonymous) "user request = None" "r = Inr (Redirect ''user_login'')" "s' = s"
  | (not_found) u where "user request = Some u" "find (\<lambda>r. pk r = i) (projects s) = None"
      "r = Inl Http404" "s' = s"
  | (unreadable) u row e where "user request = Some u"
      "find (\<lambda>r. pk r = i) (projects s) = Some row" "from_row env row = Inl e"
      "r = Inl e" "s' = s"
  | (view) u row old where "user request = Some u"
      "find (\<lambda>r. pk r = i) (projects s) = Some row" "from_row env row = Inr old"
      "http_method request \<noteq> ''POST'' \<or>
       (POST request ''action'' \<noteq> Some ''update'' \<and> POST request ''action'' \<noteq> Some ''delete'')"
      "r = Inr (Render ''construction/project_detail.html''
                  (ProjectContext old (document_url env old)))"
      "s' = s\<lparr>trace := trace s @ view_events u old\<rparr>"
  | (update_rejected) u row old e where "user request = Some u"
      "find (\<lambda>r. pk r = i) (projects s) = Some row" "from_row env row = Inr old"
      "http_method request = ''POST''" "POST request ''action'' = Some ''update''"
      "db_check env (updated_project env request old) = Some e"
      "r = Inl e"
      "s' = s\<lparr>trace := trace s @ upload_events request u i (uploaded env request i)\<rparr>"
  | (updated) u row old where "user request = Some u"
      "find (\<lambda>r. pk r = i) (projects s) = Some row" "from_row env row = Inr old"
      "http_method request = ''POST''" "POST request ''action'' = Some ''update''"
      "db_check env (updated_project env request old) = None"
      "r = Inr (Render ''construction/project_detail.html''
                  (ProjectContext (updated_project env request old)
                     (document_url env (updated_project env request old))))"
      "s' = s\<lparr>projects := map (\<lambda>r. if pk r = i
                                     then stored env (updated_project env request old) else r)
                                 (projects s),
               trace := trace s @ upload_events request u i (uploaded env request i)
                          @ [update_event request u]
                          @ view_events u (updated_project env request old),
               messages := messages s @ [''Project '' @ dq @ py_str (POST request ''name'') @ dq
                                           @ '' updated successfully!'']\<rparr>"
  | (deleted) u row old where "user request = Some u"
      "find (\<lambda>r. pk r = i) (projects s) = Some row" "from_row env row = Inr old"
      "http_method request = ''POST''" "POST request ''action'' = Some ''delete''"
      "r = Inr (Redirect ''project_list'')"
      "s' = s\<lparr>projects := filter (\<lambda>r. pk r \<noteq> i) (projects s),
               trace := trace s @ [LogActivity ''DELETE'' (json_of (name old)) (JStr (username u))
                                     (JObj [])],
               messages := messages s @ [''Project '' @ dq @ py_str (name old) @ dq
                                           @ '' deleted successfully!'']\<rparr>"
proof (cases "user request")
  case None
  from assms anonymous_redirected(3)[OF None, of env i s]
  have "r = Inr (Redirect ''user_login'')" "s' = s" by simp_all
  then show ?thesis by (rule anonymous[OF None])
next
  case (Some u)
  show ?thesis
  proof (cases "find (\<lambda>r. pk r = i) (projects s)")
    case None
    from assms project_detail_not_found[OF Some None, of env]
    have "r = Inl Http404" "s' = s" by simp_all
    then show ?thesis by (rule not_found[OF Some None])
  next
    case f: (Some row)
    show ?thesis
    proof (cases "from_row env row")
      case (Inl e)
      from assms project_detail_unreadable[OF Some f Inl]
      have "r = Inl e" "s' = s" by simp_all
      then show ?thesis by (rule unreadable[OF Some f Inl])
    next
      case rd: (Inr old)
      show ?thesis
      proof (cases "http_method request = ''POST'' \<and> POST request ''action'' = Some ''update''")
        case True
        then have m: "http_method request = ''POST''"
          and a: "POST request ''action'' = Some ''update''"
          by simp_all
        note eq = project_detail_update[OF Some m a f rd]
        show ?thesis
        proof (cases "db_check env (updated_project env request old)")
          case None
          from assms eq None show ?thesis
            by (intro updated[OF Some f rd m a None]) simp_all
        next
          case e: (Some e)
          from assms eq e show ?thesis
            by (intro update_rejected[OF Some f rd m a e]) simp_all
        qed
      next
        case nu: False
        show ?thesis
        proof (cases "http_method request = ''POST'' \<and> POST request ''action'' = Some ''delete''")
          case True
          then have m: "http_method request = ''POST''"
            and a: "POST request ''action'' = Some ''delete''"
            by simp_all
          from assms project_detail_delete[OF Some m a f rd] show ?thesis
            by (intro deleted[OF Some f rd m a]) simp_all
        next
          case False
          with nu have v: "http_method request \<noteq> ''POST'' \<or>
            (POST request ''action'' \<noteq> Some ''update'' \<and> POST request ''action'' \<noteq> Some ''delete'')"
            by blast
          from assms project_detail_view[OF Some v f rd] show ?thesis
            by (intro view[OF Some f rd v]) simp_all
        qed
      qed
    qed
  qed
qed

section \<open>The table\<close>

lemma map_replace_fresh:
  "\<forall>r\<in>set xs. pk r \<noteq> i \<Longrightarrow> map (\<lambda>r. if pk r = i then p else r) xs = xs"
  by (induction xs) auto

lemma map_pk_replace:
  "pk p = i \<Longrightarrow> map pk (map (\<lambda>r. if pk r = i then p else r) xs) = map pk xs"
  by (induction xs) auto

lemma find_map_replace:
  "pk p = i \<Longrightarrow>
   find (\<lambda>r. pk r = i) (map (\<lambda>r. if pk r = i then p else r) xs) =
     (if list_ex (\<lambda>r. pk r = i) xs then Some p else None)"
  by (induction xs) auto

lemma find_append_fresh:
  "\<forall>r\<in>set xs. pk r \<noteq> i \<Longrightarrow> pk p = i \<Longrightarrow> find (\<lambda>r. pk r = i) (xs @ [p]) = Some p"
  by (induction xs) auto

lemma find_filter_other:
  "find (\<lambda>r. pk r = i) (filter (\<lambda>r. pk r \<noteq> i) xs) = None"
  by (induction xs) auto

lemma wf_state_fresh: "wf_state s \<Longrightarrow> \<forall>r\<in>set (projects s). pk r \<noteq> next_id s"
  by (auto simp: wf_state_def list_all_iff)

lemma pk_submitted_project [simp]: "pk (submitted_project env request u s) = next_id s"
  by (simp add: submitted_project_def)

lemma pk_with_document [simp]: "pk (with_document env request p) = pk p"
  by (simp add: with_document_def)

lemma pk_updated_project [simp]: "pk (updated_project env request old) = pk old"
  by (simp add: updated_project_def)

lemma pk_created_project [simp]: "pk (created_project env request u s) = next_id s"
  by (simp add: created_project_def)

lemma wf_state_append:
  assumes "wf_state s" and "pk p = next_id s"
  shows "wf_state (s\<lparr>projects := projects s @ [p], next_id := Suc (next_id s)\<rparr>)"
  using assms by (auto simp: wf_state_def list_all_iff less_Suc_eq)

lemma wf_state_trace [simp]: "wf_state (s\<lparr>trace := t\<rparr>) = wf_state s"
  by (simp add: wf_state_def)

lemma wf_state_messages [simp]: "wf_state (s\<lparr>messages := t\<rparr>) = wf_state s"
  by (simp add: wf_state_def)

lemma wf_state_replace:
  assumes "wf_state s" and "pk p = i"
  shows "wf_state (s\<lparr>projects := map (\<lambda>r. if pk r = i then p else r) (projects s)\<rparr>)"
proof -
  have "map pk (map (\<lambda>r. if pk r = i then p else r) (projects s)) = map pk (projects s)"
    by (rule map_pk_replace[OF assms(2)])
  then show ?thesis
    using assms by (auto simp: wf_state_def list_all_iff simp del: map_map)
qed

lemma wf_state_filter:
  assumes "wf_state s"
  shows "wf_state (s\<lparr>projects := filter P (projects s)\<rparr>)"
  using assms by (auto simp: wf_state_def list_all_iff distinct_map_filter)

text \<open>A completed create in a well-formed table: one more row, at the end.\<close>

lemma project_create_appends:
  assumes "project_create env request s = (Inr (Redirect ''project_list''), s')"
    and "wf_state s"
  shows "\<exists>u. user request = Some u \<and> http_method request = ''POST'' \<and>
           db_check env (submitted_project env request u s) = None \<and>
           db_check env (created_project env request u s) = None \<and>
           projects s' = projects s @ [stored env (created_project env request u s)] \<and>
           next_id s' = Suc (next_id s) \<and>
           trace s' = trace s @ upload_events request u (next_id s) (uploaded env request (next_id s))
                        @ create_events env request u"
  using assms(1)
proof (cases rule: project_create_cases)
  case (stored u)
  then show ?thesis by (simp add: created_project_def)
next
  case (stored_with_document u)
  then show ?thesis
    using map_replace_fresh[OF wf_state_fresh[OF assms(2)]]
      stored_fields(1)[OF stored_with_document(3)]
    by (simp add: created_project_def)
qed simp_all

lemma wf_state_project_create:
  assumes "project_create env request s = (r, s')" and "wf_state s"
  shows "wf_state s'"
  using assms(1)
proof (cases rule: project_create_cases)
  case (stored u)
  then show ?thesis
    using wf_state_append[OF assms(2), of "stored env (submitted_project env request u s)"]
      stored_fields(1)[OF stored(3)]
    by simp
next
  case (save_failed u e)
  then show ?thesis
    using wf_state_append[OF assms(2), of "stored env (submitted_project env request u s)"]
      stored_fields(1)[OF save_failed(3)]
    by simp
next
  case (stored_with_document u)
  then show ?thesis
    using wf_state_append[OF assms(2),
        of "stored env (with_document env request (submitted_project env request u s))"]
      map_replace_fresh[OF wf_state_fresh[OF assms(2)]]
      stored_fields(1)[OF stored_with_document(3)] stored_fields(1)[OF stored_with_document(5)]
    by simp
qed (simp_all add: assms(2))

lemma wf_state_project_detail:
  assumes "project_detail env request i s = (r, s')" and "wf_state s"
  shows "wf_state s'"
  using assms(1)
proof (cases rule: project_detail_cases)
  case (updated u row old)
  have "pk (stored env (updated_project env request old)) = i"
    using stored_fields(1)[OF updated(6)] from_row_keeps(1)[OF updated(3)] find_pk(1)[OF updated(2)]
    by simp
  from wf_state_replace[OF assms(2) this] updated show ?thesis
    by simp
next
  case (deleted u row old)
  then show ?thesis using wf_state_filter[OF assms(2)] by simp
qed (simp_all add: assms(2))

lemma project_list_state:
  assumes "project_list env request s = (r, s')"
  shows "projects s' = projects s \<and> next_id s' = next_id s"
proof (cases "user request")
  case None
  then show ?thesis using assms anonymous_redirected(1)[OF None, of env s] by simp
next
  case (Some u)
  then show ?thesis using assms project_list_authenticated[OF Some, of env s] by auto
qed

lemma wf_state_project_list:
  assumes "project_list env request s = (r, s')" and "wf_state s"
  shows "wf_state s'"
  using project_list_state[OF assms(1)] assms(2) by (simp add: wf_state_def)

lemma wf_state_serve:
  assumes "wf_state s"
  shows "wf_state (serve calls s)"
  using assms
proof (induction calls arbitrary: s)
  case Nil
  then show ?case by simp
next
  case (Cons c calls)
  obtain rt env request where c: "c = (rt, env, request)"
    by (cases c) auto
  have "wf_state (snd (dispatch rt env request s))"
  proof (cases rt)
    case ListRoute
    then show ?thesis
      using wf_state_project_list[OF surjective_pairing Cons.prems, of env request] by simp
  next
    case CreateRoute
    then show ?thesis
      using wf_state_project_create[OF surjective_pairing Cons.prems, of env request] by simp
  next
    case (DetailRoute j)
    then show ?thesis
      using wf_state_project_detail[OF surjective_pairing Cons.prems, of env request j] by simp
  qed
  then show ?case
    using Cons.IH c by simp
qed

lemma wf_state_empty_db: "wf_state (serve calls empty_db)"
  by (rule wf_state_serve) (simp add: wf_state_def empty_db_def)

lemma get_object_or_404_find:
  assumes "get_object_or_404 env i s = (Inr old, s')"
  obtains row where "find (\<lambda>r. pk r = i) (projects s) = Some row" "from_row env row = Inr old"
  using assms by (auto simp: get_object_or_404_def split: option.splits sum.splits)

lemma get_object_or_404_read:
  assumes "find (\<lambda>r. pk r = i) (projects s) = Some row"
  shows "get_object_or_404 env i s =
           (case from_row env row of Inl e \<Rightarrow> Inl e | Inr p \<Rightarrow> Inr p, s)"
  using assms by (simp add: get_object_or_404_def split: sum.splits)

lemma project_detail_update_outcome:
  assumes "user request = Some u" and "http_method request = ''POST''"
    and "POST request ''action'' = Some ''update''"
    and "find (\<lambda>r. pk r = i) (projects s) = Some row" and "from_row env row = Inr old"
    and "project_detail env request i s = (r, s')"
  shows "(\<exists>e. r = Inl e \<and> db_check env (updated_project env request old) = Some e \<and>
              projects s' = projects s \<and> next_id s' = next_id s \<and>
              new_events s s' = upload_events request u i (uploaded env request i)) \<or>
         (r = Inr (Render ''construction/project_detail.html''
                     (ProjectContext (updated_project env request old)
                        (document_url env (updated_project env request old)))) \<and>
          db_check env (updated_project env request old) = None \<and>
          projects s' = map (\<lambda>r. if pk r = i then stored env (updated_project env request old)
                                  else r)
                          (projects s) \<and>
          next_id s' = next_id s \<and>
          new_events s s' = upload_events request u i (uploaded env request i)
                              @ [update_event request u]
                              @ view_events u (updated_project env request old))"
  using assms(6)
proof (cases rule: project_detail_cases)
  case (update_rejected u' row' old' e)
  with assms show ?thesis by (simp add: new_events_def)
next
  case (updated u' row' old')
  with assms show ?thesis by (simp add: new_events_def)
qed (use assms in simp_all)

section \<open>Ids are never handed out twice\<close>





section \<open>The requesting user\<close>

lemma same_form_shorthand:
  assumes "POST r1 = POST r2" and "FILES r1 = FILES r2"
  shows "uploaded env r1 i = uploaded env r2 i"
    and "updated_project env r1 old = updated_project env r2 old"
    and "map anonymise (upload_events r1 u1 i b) = map anonymise (upload_events r2 u2 i b)"
    and "anonymise (update_event r1 u1) = anonymise (update_event r2 u2)"
    and "map anonymise (view_events u1 q) = map anonymise (view_events u2 q)"
  using assms
  by (simp_all add: uploaded_def updated_project_def upload_events_def update_event_def
      view_events_def)

lemma project_detail_user_independent:
  assumes u1: "user r1 = Some u1" and u2: "user r2 = Some u2"
    and m: "http_method r1 = http_method r2"
    and p: "POST r1 = POST r2" and fl: "FILES r1 = FILES r2"
  shows "fst (project_detail env r1 i s) = fst (project_detail env r2 i s) \<and>
         projects (snd (project_detail env r1 i s)) = projects (snd (project_detail env r2 i s)) \<and>
         next_id (snd (project_detail env r1 i s)) = next_id (snd (project_detail env r2 i s)) \<and>
         messages (snd (project_detail env r1 i s)) = messages (snd (project_detail env r2 i s)) \<and>
         map anonymise (trace (snd (project_detail env r1 i s)))
           = map anonymise (trace (snd (project_detail env r2 i s)))"
proof (cases "find (\<lambda>r. pk r = i) (projects s)")
  case None
  show ?thesis
    by (simp add: project_detail_not_found[OF u1 None] project_detail_not_found[OF u2 None])
next
  case f: (Some row)
  note sh = same_form_shorthand[OF p fl]
  show ?thesis
  proof (cases "from_row env row")
    case (Inl e)
    show ?thesis
      by (simp add: project_detail_unreadable[OF u1 f Inl] project_detail_unreadable[OF u2 f Inl])
  next
    case rd: (Inr old)
    show ?thesis
    proof (cases "http_method r1 = ''POST'' \<and> POST r1 ''action'' = Some ''update''")
      case True
      then have c1: "http_method r1 = ''POST''" "POST r1 ''action'' = Some ''update''"
        and c2: "http_method r2 = ''POST''" "POST r2 ''action'' = Some ''update''"
        using m p by simp_all
      show ?thesis
        unfolding project_detail_update[OF u1 c1 f rd] project_detail_update[OF u2 c2 f rd]
        using sh(3)[of u1 i "uploaded env r2 i" u2] sh(4)[of u1 u2]
          sh(5)[of u1 "updated_project env r2 old" u2]
        by (cases "db_check env (updated_project env r2 old)")
           (simp_all add: sh(1,2)[of env] p)
    next
      case nu: False
      show ?thesis
      proof (cases "http_method r1 = ''POST'' \<and> POST r1 ''action'' = Some ''delete''")
        case True
        then have c1: "http_method r1 = ''POST''" "POST r1 ''action'' = Some ''delete''"
          and c2: "http_method r2 = ''POST''" "POST r2 ''action'' = Some ''delete''"
          using m p by simp_all
        show ?thesis
          unfolding project_detail_delete[OF u1 c1 f rd] project_detail_delete[OF u2 c2 f rd]
          by simp
      next
        case False
        with nu have v1: "http_method r1 \<noteq> ''POST'' \<or>
            (POST r1 ''action'' \<noteq> Some ''update'' \<and> POST r1 ''action'' \<noteq> Some ''delete'')"
          by blast
        then have v2: "http_method r2 \<noteq> ''POST'' \<or>
            (POST r2 ''action'' \<noteq> Some ''update'' \<and> POST r2 ''action'' \<noteq> Some ''delete'')"
          using m p by simp
        show ?thesis
          unfolding project_detail_view[OF u1 v1 f rd] project_detail_view[OF u2 v2 f rd]
          using sh(5)[of u1 old u2] by simp
      qed
    qed
  qed
qed

section \<open>The order of the listing\<close>

lemma objects_all_set [simp]: "set (objects_all s) = set (projects s)"
  by (simp add: objects_all_def)

lemma objects_all_length [simp]: "length (objects_all s) = length (projects s)"
  by (simp add: objects_all_def)

lemma objects_all_sorted:
  "sorted_wrt (\<lambda>p q. created_at q \<le> created_at p) (objects_all s)"
proof -
  have "sorted (map (\<lambda>p. - int (created_at p)) (objects_all s))"
    by (simp add: objects_all_def)
  then show ?thesis
    by (simp add: sorted_map sorted_wrt_iff_nth_less)
qed

lemma objects_all_hd:
  assumes "x \<in> set (projects s)"
    and "\<forall>y\<in>set (projects s). y \<noteq> x \<longrightarrow> created_at y < created_at x"
  shows "hd (objects_all s) = x"
proof (rule ccontr)
  assume neq: "hd (objects_all s) \<noteq> x"
  from assms(1) have ne: "objects_all s \<noteq> []"
    by (auto simp flip: set_empty)
  then have hd_in: "hd (objects_all s) \<in> set (projects s)"
    using hd_in_set[OF ne] by simp
  with assms(2) neq have lt: "created_at (hd (objects_all s)) < created_at x"
    by blast
  from assms(1) have "\<exists>n<length (objects_all s). objects_all s ! n = x"
    using in_set_conv_nth[of x "objects_all s"] by simp
  then obtain n where n: "n < length (objects_all s)" "objects_all s ! n = x"
    by blast
  have "created_at x \<le> created_at (hd (objects_all s))"
  proof (cases n)
    case 0
    with n ne show ?thesis by (simp add: hd_conv_nth)
  next
    case (Suc m)
    with n objects_all_sorted[of s] have "created_at (objects_all s ! n) \<le> created_at (objects_all s ! 0)"
      by (auto simp: sorted_wrt_iff_nth_less)
    with n ne show ?thesis by (simp add: hd_conv_nth)
  qed
  with lt show False by simp
qed

lemma created_project_fields [simp]:
  "created_at (created_project env request u s) = clock env"
  "name (created_project env request u s) = POST request ''name''"
  by (simp_all add: created_project_def with_document_def submitted_project_def)

text \<open>
  Rows created one after the other at increasing readings of the clock, all later than
  the rows already there: the query set starts with the row created last.
\<close>

lemma objects_all_most_recent_first:
  assumes "wf_state s0"
    and "list_all (\<lambda>p. created_at p < clock envA) (projects s0)"
    and "project_create envA requestA s0 = (Inr (Redirect ''project_list''), sA)"
    and "project_create envB requestB sA = (Inr (Redirect ''project_list''), sB)"
    and "project_create envC requestC sB = (Inr (Redirect ''project_list''), sC)"
    and "clock envA < clock envB" and "clock envB < clock envC"
  shows "hd (objects_all sC) = last (projects sC) \<and>
         pk (hd (objects_all sC)) = next_id sB \<and>
         name (hd (objects_all sC)) = POST requestC ''name'' \<and>
         created_at (hd (objects_all sC)) = clock envC \<and>
         projects sC \<noteq> []"
proof -
  from project_create_appends[OF assms(3) assms(1)] obtain uA where
    dbA: "db_check envA (created_project envA requestA uA s0) = None" and
    rowsA: "projects sA = projects s0 @ [stored envA (created_project envA requestA uA s0)]"
    by blast
  have wf1: "wf_state sA"
    by (rule wf_state_project_create[OF assms(3) assms(1)])
  from project_create_appends[OF assms(4) wf1] obtain uB where
    dbB: "db_check envB (created_project envB requestB uB sA) = None" and
    rowsB: "projects sB = projects sA @ [stored envB (created_project envB requestB uB sA)]"
    by blast
  have wf2: "wf_state sB"
    by (rule wf_state_project_create[OF assms(4) wf1])
  from project_create_appends[OF assms(5) wf2] obtain uC where
    dbC: "db_check envC (created_project envC requestC uC sB) = None" and
    rowsC: "projects sC = projects sB @ [stored envC (created_project envC requestC uC sB)]"
    by blast
  let ?c = "stored envC (created_project envC requestC uC sB)"
  note fA = stored_fields[OF dbA] and fB = stored_fields[OF dbB] and fC = stored_fields[OF dbC]
  have last: "last (projects sC) = ?c" and mem: "?c \<in> set (projects sC)"
    by (simp_all add: rowsC)
  have older: "\<forall>y\<in>set (projects sC). y \<noteq> ?c \<longrightarrow> created_at y < created_at ?c"
    using assms(2,6,7) by (auto simp: rowsA rowsB rowsC list_all_iff fA(9) fB(9) fC(9))
  have hd: "hd (objects_all sC) = ?c"
    by (rule objects_all_hd[OF mem older])
  show ?thesis
    by (simp add: hd last fC rowsC)
qed

text \<open>Reading the rows of a query set keeps their number, their ids, names and timestamps.\<close>

lemma read_all_keeps:
  assumes "read_all env rows = Inr ps"
  shows "length ps = length rows" "map pk ps = map pk rows" "map name ps = map name rows"
    "map created_at ps = map created_at rows"
  using assms
  by (induction rows arbitrary: ps;
      auto simp: and_then_def split: sum.splits dest: from_row_keeps(1,2,11))+

lemma read_all_hd:
  assumes "read_all env rows = Inr ps" and "rows \<noteq> []"
  shows "pk (hd ps) = pk (hd rows)" "name (hd ps) = name (hd rows)"
    "created_at (hd ps) = created_at (hd rows)"
  using assms
  by (cases rows; auto simp: and_then_def split: sum.splits dest: from_row_keeps(1,2,11))+

lemma read_all_sorted:
  assumes "read_all env rows = Inr ps"
    and "sorted_wrt (\<lambda>p q. created_at q \<le> created_at p) rows"
  shows "sorted_wrt (\<lambda>p q. created_at q \<le> created_at p) ps"
proof -
  have "sorted_wrt (\<lambda>a b. b \<le> a) (map created_at rows)"
    using assms(2) by (simp add: sorted_wrt_map)
  then have "sorted_wrt (\<lambda>a b. b \<le> a) (map created_at ps)"
    by (simp add: read_all_keeps(4)[OF assms(1)])
  then show ?thesis
    by (simp add: sorted_wrt_map)
qed

section \<open>The specified properties\<close>

text \<open>
  C8.  For every input (activity type, subject name, actor, details) and every behaviour of
  the log service, the record operation of the Audit Sink, \<open>log_project_activity\<close>,
  returns a boolean and raises nothing: a failure to find or create the group or the
  stream, a log entry that cannot be serialised and a failed append all end in the return
  value \<open>False\<close>, and the value is \<open>True\<close> exactly when none of them happened.  The two
  \<open>ensure_...\<close> operations return a boolean in the same way.
\<close>

theorem audit_sink_never_raises:
  "(\<exists>b. log_project_activity self utcnow activity_type project_name usr details = Inr b) \<and>
   (\<exists>b. ensure_log_group_exists self = Inr b) \<and>
   (\<exists>b. ensure_log_stream_exists self = Inr b) \<and>
   log_project_activity self utcnow activity_type project_name usr details =
     Inr ((\<not> isl (describe_log_groups (logs self) (log_group_name self)) \<or>
           \<not> isl (create_log_group (logs self) (log_group_name self))) \<and>
          (\<not> isl (describe_log_streams (logs self) (log_group_name self) (log_stream_name self)) \<or>
           \<not> isl (create_log_stream (logs self) (log_group_name self) (log_stream_name self))) \<and>
          serialisable project_name \<and> serialisable usr \<and> serialisable details \<and>
          \<not> isl (put_log_events (logs self) (log_group_name self) (log_stream_name self) utcnow
                   (JObj [(''timestamp'', JInt (int utcnow)),
                          (''activity_type'', JStr activity_type),
                          (''project_name'', project_name),
                          (''user'', usr),
                          (''details'', details)])))"
proof -
  have "log_project_activity self utcnow activity_type project_name usr details =
     Inr ((\<not> isl (describe_log_groups (logs self) (log_group_name self)) \<or>
           \<not> isl (create_log_group (logs self) (log_group_name self))) \<and>
          (\<not> isl (describe_log_streams (logs self) (log_group_name self) (log_stream_name self)) \<or>
           \<not> isl (create_log_stream (logs self) (log_group_name self) (log_stream_name self))) \<and>
          serialisable project_name \<and> serialisable usr \<and> serialisable details \<and>
          \<not> isl (put_log_events (logs self) (log_group_name self) (log_stream_name self) utcnow
                   (JObj [(''timestamp'', JInt (int utcnow)),
                          (''activity_type'', JStr activity_type),
                          (''project_name'', project_name),
                          (''user'', usr),
                          (''details'', details)])))"
    by (auto simp: log_project_activity_def ensure_log_group_exists_def
        ensure_log_stream_exists_def json_dumps_def try_except_def and_then_def Let_def
        split: sum.splits)
  then show ?thesis
    using ensure_log_group_exists_returns ensure_log_stream_exists_returns by simp
qed

theorem audit_sink_never_raises_witness:
  "log_project_activity
     (sample_logger\<lparr>logs := (logs sample_logger)\<lparr>put_log_events := (\<lambda>_ _ _ _. Inl (ClientError ''Throttled''))\<rparr>\<rparr>)
     7 ''DELETE'' (JStr ''Old Name'') (JStr ''alice'') (JObj []) = Inr False \<and>
   log_project_activity sample_logger 7 ''VIEW'' (JStr ''Old Name'') (JStr ''alice'') JOpaque = Inr False \<and>
   log_project_activity sample_logger 7 ''VIEW'' (JStr ''Old Name'') (JStr ''alice'') (JObj []) = Inr True"
  using audit_sink_never_raises
          [of "sample_logger\<lparr>logs := (logs sample_logger)\<lparr>put_log_events := (\<lambda>_ _ _ _. Inl (ClientError ''Throttled''))\<rparr>\<rparr>"
              7 "''DELETE''" "JStr ''Old Name''" "JStr ''alice''" "JObj []"]
        audit_sink_never_raises
          [of sample_logger 7 "''VIEW''" "JStr ''Old Name''" "JStr ''alice''" JOpaque]
        audit_sink_never_raises
          [of sample_logger 7 "''VIEW''" "JStr ''Old Name''" "JStr ''alice''" "JObj []"]
  by (simp add: sample_logger_def)

text \<open>
  C2.  A create that completes (the view answers with the redirect to the list) makes
  exactly one call of \<open>send_email\<close>, and makes one call of \<open>send_sns_notification\<close> when
  the submitted priority is \<open>High\<close> or \<open>Critical\<close> and none otherwise, in particular none
  for \<open>Low\<close> and \<open>Medium\<close>.
\<close>

theorem create_notification_attempts:
  assumes "project_create env request s = (Inr (Redirect ''project_list''), s')"
  shows "take (length (trace s)) (trace s') = trace s \<and>
         length (filter is_SendEmail (new_events s s')) = 1 \<and>
         length (filter is_SendSns (new_events s s')) =
           (if POST request ''priority'' = Some ''High'' \<or> POST request ''priority'' = Some ''Critical''
            then 1 else 0) \<and>
         (POST request ''priority'' = Some ''Low'' \<or> POST request ''priority'' = Some ''Medium''
            \<longrightarrow> filter is_SendSns (new_events s s') = [])"
  using assms
proof (cases rule: project_create_cases)
  case (stored u)
  then show ?thesis
    by (simp add: new_events_def upload_events_def create_events_def)
next
  case (stored_with_document u)
  then show ?thesis
    by (simp add: new_events_def upload_events_def create_events_def)
qed simp_all

theorem create_notification_attempts_witness:
  "fst (project_create (sample_env True 10)
          (post_request alice (sample_form ''Bridge'' ''Critical'') (Some sample_file)) empty_db)
     = Inr (Redirect ''project_list'') \<and>
   length (filter is_SendEmail (new_events empty_db
     (snd (project_create (sample_env True 10)
             (post_request alice (sample_form ''Bridge'' ''Critical'') (Some sample_file)) empty_db)))) = 1 \<and>
   length (filter is_SendSns (new_events empty_db
     (snd (project_create (sample_env True 10)
             (post_request alice (sample_form ''Bridge'' ''Critical'') (Some sample_file)) empty_db)))) = 1 \<and>
   fst (project_create (sample_env True 10)
          (post_request bob (sample_form ''Shed'' ''Low'') None) empty_db)
     = Inr (Redirect ''project_list'') \<and>
   length (filter is_SendEmail (new_events empty_db
     (snd (project_create (sample_env True 10)
             (post_request bob (sample_form ''Shed'' ''Low'') None) empty_db)))) = 1 \<and>
   filter is_SendSns (new_events empty_db
     (snd (project_create (sample_env True 10)
             (post_request bob (sample_form ''Shed'' ''Low'') None) empty_db))) = []"
proof -
  have a: "fst (project_create (sample_env True 10)
          (post_request alice (sample_form ''Bridge'' ''Critical'') (Some sample_file)) empty_db)
     = Inr (Redirect ''project_list'')"
    by code_simp
  have b: "fst (project_create (sample_env True 10)
          (post_request bob (sample_form ''Shed'' ''Low'') None) empty_db)
     = Inr (Redirect ''project_list'')"
    by code_simp
  have pa: "POST (post_request alice (sample_form ''Bridge'' ''Critical'') (Some sample_file)) ''priority''
              = Some ''Critical''"
    by (simp add: post_request_def sample_form_def)
  have pb: "POST (post_request bob (sample_form ''Shed'' ''Low'') None) ''priority'' = Some ''Low''"
    by (simp add: post_request_def sample_form_def)
  from create_notification_attempts[OF surjective_pairing[THEN trans, OF arg_cong2[where f=Pair, OF a refl]]]
       create_notification_attempts[OF surjective_pairing[THEN trans, OF arg_cong2[where f=Pair, OF b refl]]]
       a b pa pb
  show ?thesis by simp
qed

text \<open>
  C5 (amended).  Every file that \<open>project_create\<close> or \<open>project_detail\<close> hands to the
  Document Store is the submitted file, put under the key
  \<open>project_documents/<project-id>_<original-filename>\<close>: the folder prefix, the id of the
  project (the new one on create, the addressed one on update), an underscore and the name
  of the uploaded file.  A document key that either view writes on a project is that key.
\<close>

theorem document_key_form:
  "(project_create env request s = (r, s') \<and> UploadFile d k \<in> set (new_events s s') \<longrightarrow>
      FILES request ''document'' = Some d \<and>
      k = ''project_documents/'' @ show_nat (next_id s) @ ''_'' @ file_name d) \<and>
   (project_detail env request i s = (r, s') \<and> UploadFile d k \<in> set (new_events s s') \<longrightarrow>
      FILES request ''document'' = Some d \<and>
      k = ''project_documents/'' @ show_nat i @ ''_'' @ file_name d) \<and>
   (project_create env request s = (r, s') \<and> wf_state s \<and>
    p \<in> set (projects s') \<and> p \<notin> set (projects s) \<longrightarrow>
      pk p = next_id s \<and>
      (document p = None \<or>
       (\<exists>f. FILES request ''document'' = Some f \<and>
            document p = Some (''project_documents/'' @ show_nat (pk p) @ ''_'' @ file_name f)))) \<and>
   (project_detail env request i s = (r, s') \<and>
    p \<in> set (projects s') \<and> p \<notin> set (projects s) \<longrightarrow>
      pk p = i \<and>
      (\<exists>old. get_object_or_404 env i s = (Inr old, s) \<and>
         (document p = document old \<or>
          (\<exists>f. FILES request ''document'' = Some f \<and>
               document p = Some (''project_documents/'' @ show_nat (pk p) @ ''_'' @ file_name f)))))"
proof -
  have A: "project_create env request s = (r, s') \<and> UploadFile d k \<in> set (new_events s s') \<longrightarrow>
      FILES request ''document'' = Some d \<and>
      k = ''project_documents/'' @ show_nat (next_id s) @ ''_'' @ file_name d"
  proof (intro impI, elim conjE)
    assume run: "project_create env request s = (r, s')"
      and ev: "UploadFile d k \<in> set (new_events s s')"
    from run have "file_truthy (FILES request ''document'') \<and>
        d = the (FILES request ''document'') \<and>
        k = document_key (next_id s) (the (FILES request ''document''))"
      using ev
      by (cases rule: project_create_cases)
         (auto simp: new_events_def upload_events_def create_events_def split: if_splits)
    then show "FILES request ''document'' = Some d \<and>
        k = ''project_documents/'' @ show_nat (next_id s) @ ''_'' @ file_name d"
      by (auto simp: file_truthy_def document_key_def split: option.splits)
  qed
  have B: "project_detail env request i s = (r, s') \<and> UploadFile d k \<in> set (new_events s s') \<longrightarrow>
      FILES request ''document'' = Some d \<and>
      k = ''project_documents/'' @ show_nat i @ ''_'' @ file_name d"
  proof (intro impI, elim conjE)
    assume run: "project_detail env request i s = (r, s')"
      and ev: "UploadFile d k \<in> set (new_events s s')"
    from run have "file_truthy (FILES request ''document'') \<and>
        d = the (FILES request ''document'') \<and>
        k = document_key i (the (FILES request ''document''))"
      using ev
      by (cases rule: project_detail_cases)
         (auto simp: new_events_def upload_events_def update_event_def view_events_def
            split: if_splits)
    then show "FILES request ''document'' = Some d \<and>
        k = ''project_documents/'' @ show_nat i @ ''_'' @ file_name d"
      by (auto simp: file_truthy_def document_key_def split: option.splits)
  qed
  have C: "project_create env request s = (r, s') \<and> wf_state s \<and>
    p \<in> set (projects s') \<and> p \<notin> set (projects s) \<longrightarrow>
      pk p = next_id s \<and>
      (document p = None \<or>
       (\<exists>f. FILES request ''document'' = Some f \<and>
            document p = Some (''project_documents/'' @ show_nat (pk p) @ ''_'' @ file_name f)))"
  proof (intro impI, elim conjE)
    assume run: "project_create env request s = (r, s')" and wf: "wf_state s"
      and new: "p \<in> set (projects s')" "p \<notin> set (projects s)"
    note fresh = map_replace_fresh[OF wf_state_fresh[OF wf]]
    from run have "pk p = next_id s \<and>
        (document p = None \<or>
         (uploaded env request (next_id s) \<and>
          document p = Some (document_key (next_id s) (the (FILES request ''document'')))))"
      using new
    proof (cases rule: project_create_cases)
      case (stored u)
      with new stored_fields(1,8)[OF stored(3)] show ?thesis
        by (auto simp: submitted_project_def)
    next
      case (save_failed u e)
      with new stored_fields(1,8)[OF save_failed(3)] show ?thesis
        by (auto simp: submitted_project_def)
    next
      case (stored_with_document u)
      with new stored_fields(1,8)[OF stored_with_document(5)]
        stored_fields(1)[OF stored_with_document(3)]
      show ?thesis
        by (auto simp: fresh submitted_project_def with_document_def)
    qed simp_all
    then show "pk p = next_id s \<and>
        (document p = None \<or>
         (\<exists>f. FILES request ''document'' = Some f \<and>
              document p = Some (''project_documents/'' @ show_nat (pk p) @ ''_'' @ file_name f)))"
      by (auto simp: uploaded_def file_truthy_def document_key_def split: option.splits)
  qed
  have D: "project_detail env request i s = (r, s') \<and>
    p \<in> set (projects s') \<and> p \<notin> set (projects s) \<longrightarrow>
      pk p = i \<and>
      (\<exists>old. get_object_or_404 env i s = (Inr old, s) \<and>
         (document p = document old \<or>
          (\<exists>f. FILES request ''document'' = Some f \<and>
               document p = Some (''project_documents/'' @ show_nat (pk p) @ ''_'' @ file_name f))))"
  proof (intro impI, elim conjE)
    assume run: "project_detail env request i s = (r, s')"
      and new: "p \<in> set (projects s')" "p \<notin> set (projects s)"
    from run have "\<exists>row old. find (\<lambda>r. pk r = i) (projects s) = Some row \<and>
        from_row env row = Inr old \<and>
        db_check env (updated_project env request old) = None \<and>
        p = stored env (updated_project env request old)"
      using new
      by (cases rule: project_detail_cases) (auto split: if_splits)
    then obtain row old where f: "find (\<lambda>r. pk r = i) (projects s) = Some row"
      and rd: "from_row env row = Inr old"
      and db: "db_check env (updated_project env request old) = None"
      and p: "p = stored env (updated_project env request old)"
      by blast
    from f rd have g: "get_object_or_404 env i s = (Inr old, s)"
      by (simp add: get_object_or_404_def)
    from p find_pk(1)[OF f] from_row_keeps(1)[OF rd] stored_fields(1,8)[OF db]
    have "pk p = i \<and> (document p = document old \<or>
            (\<exists>f. FILES request ''document'' = Some f \<and>
                 document p = Some (''project_documents/'' @ show_nat (pk p) @ ''_'' @ file_name f)))"
      by (auto simp: updated_project_def uploaded_def file_truthy_def document_key_def
          split: option.splits)
    with g show "pk p = i \<and>
        (\<exists>old. get_object_or_404 env i s = (Inr old, s) \<and>
           (document p = document old \<or>
            (\<exists>f. FILES request ''document'' = Some f \<and>
                 document p = Some (''project_documents/'' @ show_nat (pk p) @ ''_'' @ file_name f))))"
      by blast
  qed
  show ?thesis
    by (rule conjI[OF A conjI[OF B conjI[OF C D]]])
qed

theorem document_key_form_witness:
  "UploadFile sample_file ''project_documents/1_plan.pdf''
     \<in> set (new_events empty_db
          (snd (project_create (sample_env True 10)
                  (post_request alice (sample_form ''Bridge'' ''High'') (Some sample_file)) empty_db))) \<and>
   ''project_documents/1_plan.pdf''
     = ''project_documents/'' @ show_nat (next_id empty_db) @ ''_'' @ file_name sample_file \<and>
   UploadFile sample_file ''project_documents/1_plan.pdf''
     \<in> set (new_events one_project_db
          (snd (project_detail (sample_env True 10)
                  (post_request bob ((''action'', ''update'') # sample_form ''Bridge'' ''High'')
                     (Some sample_file)) 1 one_project_db))) \<and>
   ''project_documents/1_plan.pdf''
     = ''project_documents/'' @ show_nat 1 @ ''_'' @ file_name sample_file \<and>
   hd (projects (snd (project_create (sample_env True 10)
                  (post_request alice (sample_form ''Bridge'' ''High'') (Some sample_file)) empty_db)))
     \<in> set (projects (snd (project_create (sample_env True 10)
                  (post_request alice (sample_form ''Bridge'' ''High'') (Some sample_file)) empty_db))) \<and>
   hd (projects (snd (project_create (sample_env True 10)
                  (post_request alice (sample_form ''Bridge'' ''High'') (Some sample_file)) empty_db)))
     \<notin> set (projects empty_db) \<and>
   wf_state empty_db \<and>
   pk (hd (projects (snd (project_create (sample_env True 10)
                  (post_request alice (sample_form ''Bridge'' ''High'') (Some sample_file)) empty_db))))
     = next_id empty_db \<and>
   hd (projects (snd (project_detail (sample_env True 10)
                  (post_request bob ((''action'', ''update'') # sample_form ''Bridge'' ''High'')
                     (Some sample_file)) 1 one_project_db)))
     \<in> set (projects (snd (project_detail (sample_env True 10)
                  (post_request bob ((''action'', ''update'') # sample_form ''Bridge'' ''High'')
                     (Some sample_file)) 1 one_project_db))) \<and>
   hd (projects (snd (project_detail (sample_env True 10)
                  (post_request bob ((''action'', ''update'') # sample_form ''Bridge'' ''High'')
                     (Some sample_file)) 1 one_project_db)))
     \<notin> set (projects one_project_db) \<and>
   pk (hd (projects (snd (project_detail (sample_env True 10)
                  (post_request bob ((''action'', ''update'') # sample_form ''Bridge'' ''High'')
                     (Some sample_file)) 1 one_project_db)))) = 1"
proof -
  let ?C = "project_create (sample_env True 10)
              (post_request alice (sample_form ''Bridge'' ''High'') (Some sample_file)) empty_db"
  let ?U = "project_detail (sample_env True 10)
              (post_request bob ((''action'', ''update'') # sample_form ''Bridge'' ''High'')
                 (Some sample_file)) 1 one_project_db"
  note T = document_key_form
  have ev1: "UploadFile sample_file ''project_documents/1_plan.pdf''
               \<in> set (new_events empty_db (snd ?C))"
    by code_simp
  have ev2: "UploadFile sample_file ''project_documents/1_plan.pdf''
               \<in> set (new_events one_project_db (snd ?U))"
    by code_simp
  have in1: "hd (projects (snd ?C)) \<in> set (projects (snd ?C))"
    by code_simp
  have out1: "hd (projects (snd ?C)) \<notin> set (projects empty_db)"
    by (simp add: empty_db_def)
  have in2: "hd (projects (snd ?U)) \<in> set (projects (snd ?U))"
    by code_simp
  have out2: "hd (projects (snd ?U)) \<notin> set (projects one_project_db)"
    by code_simp
  have wf: "wf_state empty_db"
    by (simp add: wf_state_def empty_db_def)
  from T[THEN conjunct1, rule_format, OF conjI[OF surjective_pairing ev1]]
  have A: "''project_documents/1_plan.pdf''
     = ''project_documents/'' @ show_nat (next_id empty_db) @ ''_'' @ file_name sample_file"
    by simp
  from T[THEN conjunct2, THEN conjunct1, rule_format, OF conjI[OF surjective_pairing ev2]]
  have B: "''project_documents/1_plan.pdf''
     = ''project_documents/'' @ show_nat 1 @ ''_'' @ file_name sample_file"
    by simp
  from T[THEN conjunct2, THEN conjunct2, THEN conjunct1, rule_format,
         OF conjI[OF surjective_pairing conjI[OF wf conjI[OF in1 out1]]]]
  have C: "pk (hd (projects (snd ?C))) = next_id empty_db"
    by simp
  from T[THEN conjunct2, THEN conjunct2, THEN conjunct2, rule_format,
         OF conjI[OF surjective_pairing conjI[OF in2 out2]]]
  have D: "pk (hd (projects (snd ?U))) = 1"
    by simp
  from ev1 ev2 in1 out1 in2 out2 wf A B C D show ?thesis
    by (intro conjI)
qed

theorem document_key_form_counterexample:
  "UploadFile sample_file ''project_documents/1_plan.pdf''
     \<in> set (trace (snd (project_create (sample_env True 10)
                  (post_request alice (sample_form ''Bridge'' ''High'') (Some sample_file)) empty_db))) \<and>
   map document (projects (snd (project_create (sample_env True 10)
                  (post_request alice (sample_form ''Bridge'' ''High'') (Some sample_file)) empty_db)))
     = [Some ''project_documents/1_plan.pdf''] \<and>
   map pk (projects (snd (project_create (sample_env True 10)
                  (post_request alice (sample_form ''Bridge'' ''High'') (Some sample_file)) empty_db)))
     = [1] \<and>
   ''project_documents/1_plan.pdf'' \<noteq> show_nat 1 @ ''_'' @ file_name sample_file"
  by code_simp

text \<open>
  C10 (amended).  An update submission on an existing project leaves the project's id, its
  manager and its \<open>created_at\<close> timestamp as they were, whether the save is accepted or
  rejected; what it modifies on that project is the eight form-carried fields, possibly
  the document key, and the system-set \<open>updated_at\<close> timestamp.  No other row of the table
  is touched and no row is added or removed.
\<close>

theorem update_frame:
  assumes "user request = Some u" and "http_method request = ''POST''"
    and "POST request ''action'' = Some ''update''"
    and "get_object_or_404 env i s = (Inr old, s)"
    and "project_detail env request i s = (r, s')"
  shows "\<exists>row row'.
           find (\<lambda>r. pk r = i) (projects s) = Some row \<and>
           find (\<lambda>r. pk r = i) (projects s') = Some row' \<and>
           pk row' = pk old \<and> manager row' = manager old \<and> created_at row' = created_at old \<and>
           pk row' = pk row \<and> manager row' = manager row \<and> created_at row' = created_at row \<and>
           (row' = row \<or>
            row' = row\<lparr>name := POST request ''name'', description := POST request ''description'',
                       location := POST request ''location'',
                       start_date := start_date row', end_date := end_date row',
                       budget := budget row',
                       status := POST request ''status'', priority := POST request ''priority'',
                       document := document row', updated_at := clock env\<rparr> \<and>
            column_value (date_column env) (POST request ''start_date'') = Inr (start_date row') \<and>
            column_value (date_column env) (POST request ''end_date'') = Inr (end_date row') \<and>
            column_value (decimal_column env) (POST request ''budget'') = Inr (budget row')) \<and>
           (\<forall>env'. get_object_or_404 env' i s' =
              (case from_row env' row' of Inl e \<Rightarrow> Inl e | Inr p \<Rightarrow> Inr p, s')) \<and>
           (\<forall>env' p. get_object_or_404 env' i s' = (Inr p, s') \<longrightarrow>
              pk p = pk old \<and> manager p = manager old \<and> created_at p = created_at old) \<and>
           (\<forall>q. pk q \<noteq> i \<longrightarrow> (q \<in> set (projects s') \<longleftrightarrow> q \<in> set (projects s))) \<and>
           map pk (projects s') = map pk (projects s) \<and>
           next_id s' = next_id s"
proof -
  from assms(4) obtain row where f: "find (\<lambda>r. pk r = i) (projects s) = Some row"
    and rd: "from_row env row = Inr old"
    by (rule get_object_or_404_find)
  note pk = find_pk[OF f]
  note keep = from_row_keeps[OF rd]
  have reread: "\<forall>env' p. get_object_or_404 env' i s' = (Inr p, s') \<longrightarrow>
              pk p = pk old \<and> manager p = manager old \<and> created_at p = created_at old"
    if "find (\<lambda>r. pk r = i) (projects s') = Some row'"
      and "pk row' = pk old" "manager row' = manager old" "created_at row' = created_at old"
    for row'
  proof (intro allI impI)
    fix env' p
    assume "get_object_or_404 env' i s' = (Inr p, s')"
    then obtain r' where "find (\<lambda>r. pk r = i) (projects s') = Some r'" "from_row env' r' = Inr p"
      by (rule get_object_or_404_find)
    with that from_row_keeps(1,9,11)[of env' r' p]
    show "pk p = pk old \<and> manager p = manager old \<and> created_at p = created_at old"
      by simp
  qed
  from project_detail_update_outcome[OF assms(1-3) f rd assms(5)]
  show ?thesis
  proof (elim disjE exE conjE)
    fix e
    assume same: "projects s' = projects s" "next_id s' = next_id s"
    from f same have f': "find (\<lambda>r. pk r = i) (projects s') = Some row"
      by simp
    from reread[OF f'] keep f f' same get_object_or_404_read[OF f'] show ?thesis
      by (intro exI[of _ row]) simp
  next
    let ?new = "updated_project env request old"
    let ?row' = "stored env ?new"
    assume db: "db_check env ?new = None"
      and rows: "projects s' = map (\<lambda>r. if pk r = i then ?row' else r) (projects s)"
      and nx: "next_id s' = next_id s"
    note st = stored_fields[OF db]
    have pk': "pk ?row' = i"
      using st(1) keep(1) pk(1) by simp
    have f': "find (\<lambda>r. pk r = i) (projects s') = Some ?row'"
      using pk pk' by (simp add: rows find_map_replace)
    have k: "pk ?row' = pk old" "manager ?row' = manager old" "created_at ?row' = created_at old"
      using st(1,7,9) by (simp_all add: updated_project_def)
    have new_eq: "?new = row\<lparr>name := POST request ''name'',
                       description := POST request ''description'',
                       location := POST request ''location'',
                       start_date := POST request ''start_date'',
                       end_date := POST request ''end_date'',
                       budget := POST request ''budget'',
                       status := POST request ''status'', priority := POST request ''priority'',
                       document := document ?new, updated_at := clock env\<rparr>"
      by (subst from_row_fields(1)[OF rd]) (simp add: updated_project_def keep)
    have shape: "?row' = row\<lparr>name := POST request ''name'',
                       description := POST request ''description'',
                       location := POST request ''location'',
                       start_date := start_date ?row', end_date := end_date ?row',
                       budget := budget ?row',
                       status := POST request ''status'', priority := POST request ''priority'',
                       document := document ?row', updated_at := clock env\<rparr>"
      by (subst stored_row(1)[OF db], subst new_eq) (simp add: st(8))
    have cols: "column_value (date_column env) (POST request ''start_date'') = Inr (start_date ?row')"
      "column_value (date_column env) (POST request ''end_date'') = Inr (end_date ?row')"
      "column_value (decimal_column env) (POST request ''budget'') = Inr (budget ?row')"
      using stored_row(2-4)[OF db] by (simp_all add: updated_project_def)
    have others: "\<forall>q. pk q \<noteq> i \<longrightarrow> (q \<in> set (projects s') \<longleftrightarrow> q \<in> set (projects s))"
      using pk' by (auto simp: rows split: if_splits)
    have pks: "map pk (projects s') = map pk (projects s)"
      unfolding rows by (rule map_pk_replace[OF pk'])
    from reread[OF f' k] f f' k keep(1,9,11) shape cols others pks nx
      get_object_or_404_read[OF f'] show ?thesis
      by (intro exI[of _ row] exI[of _ ?row']) (simp only: simp_thms)
  qed
qed

theorem update_frame_witness:
  "user (post_request bob ((''action'', ''update'') # sample_form ''Bridge'' ''High'') None) = Some bob \<and>
   http_method (post_request bob ((''action'', ''update'') # sample_form ''Bridge'' ''High'') None)
     = ''POST'' \<and>
   POST (post_request bob ((''action'', ''update'') # sample_form ''Bridge'' ''High'') None) ''action''
     = Some ''update'' \<and>
   get_object_or_404 (sample_env True 10) 1 one_project_db = (Inr sample_project, one_project_db) \<and>
   (\<exists>row'. find (\<lambda>r. pk r = 1)
              (projects (snd (project_detail (sample_env True 10)
                       (post_request bob ((''action'', ''update'') # sample_form ''Bridge'' ''High'')
                          None) 1 one_project_db))) = Some row' \<and>
        pk row' = 1 \<and> manager row' = user_id alice \<and> created_at row' = 3) \<and>
   next_id (snd (project_detail (sample_env True 10)
                   (post_request bob ((''action'', ''update'') # sample_form ''Bridge'' ''High'')
                      None) 1 one_project_db)) = 2"
proof -
  let ?R = "post_request bob ((''action'', ''update'') # sample_form ''Bridge'' ''High'') None"
  let ?U = "project_detail (sample_env True 10) ?R 1 one_project_db"
  have req: "user ?R = Some bob" "http_method ?R = ''POST''" "POST ?R ''action'' = Some ''update''"
    by (simp_all add: post_request_def sample_form_def)
  have g: "get_object_or_404 (sample_env True 10) 1 one_project_db
             = (Inr sample_project, one_project_db)"
    by code_simp
  have old: "pk sample_project = 1" "manager sample_project = user_id alice"
    "created_at sample_project = 3" "next_id one_project_db = 2"
    by (simp_all add: sample_project_def alice_def one_project_db_def)
  from update_frame[OF req g surjective_pairing[of ?U]]
  obtain row row' where "find (\<lambda>r. pk r = 1) (projects (snd ?U)) = Some row'"
    "pk row' = pk sample_project" "manager row' = manager sample_project"
    "created_at row' = created_at sample_project" "next_id (snd ?U) = next_id one_project_db"
    by (elim exE conjE) (rule that)
  with old have "(\<exists>row'. find (\<lambda>r. pk r = 1) (projects (snd ?U)) = Some row' \<and>
        pk row' = 1 \<and> manager row' = user_id alice \<and> created_at row' = 3) \<and> next_id (snd ?U) = 2"
    by auto
  with req g show ?thesis
    by (intro conjI) simp_all
qed

theorem update_frame_counterexample:
  "map updated_at (projects one_project_db) = [3] \<and>
   map updated_at
     (projects (snd (project_detail (sample_env True 10)
                       (post_request bob ((''action'', ''update'') # sample_form ''Bridge'' ''High'')
                          None) 1 one_project_db))) = [10] \<and>
   map created_at
     (projects (snd (project_detail (sample_env True 10)
                       (post_request bob ((''action'', ''update'') # sample_form ''Bridge'' ''High'')
                          None) 1 one_project_db))) = [3] \<and>
   map manager
     (projects (snd (project_detail (sample_env True 10)
                       (post_request bob ((''action'', ''update'') # sample_form ''Bridge'' ''High'')
                          None) 1 one_project_db))) = [1]"
  by code_simp



text \<open>
  C9.  What \<open>project_detail\<close> and \<open>project_list\<close> do depends on the request being
  authenticated, not on who the user is: for any two users the same request gives the same
  response, the same table and the same messages, and the same collaborator calls up to
  the user name written into the audit records.  So for every authenticated user and
  every existing project, whoever its manager is, the view renders the project, the delete
  removes it, and the update is decided by the database's check of the submitted row alone.
\<close>

theorem outcome_independent_of_ownership:
  "fst (project_detail env (request\<lparr>user := Some u1\<rparr>) i s)
     = fst (project_detail env (request\<lparr>user := Some u2\<rparr>) i s) \<and>
   projects (snd (project_detail env (request\<lparr>user := Some u1\<rparr>) i s))
     = projects (snd (project_detail env (request\<lparr>user := Some u2\<rparr>) i s)) \<and>
   messages (snd (project_detail env (request\<lparr>user := Some u1\<rparr>) i s))
     = messages (snd (project_detail env (request\<lparr>user := Some u2\<rparr>) i s)) \<and>
   map anonymise (trace (snd (project_detail env (request\<lparr>user := Some u1\<rparr>) i s)))
     = map anonymise (trace (snd (project_detail env (request\<lparr>user := Some u2\<rparr>) i s))) \<and>
   fst (project_list env (request\<lparr>user := Some u1\<rparr>) s)
     = fst (project_list env (request\<lparr>user := Some u2\<rparr>) s) \<and>
   projects (snd (project_list env (request\<lparr>user := Some u1\<rparr>) s))
     = projects (snd (project_list env (request\<lparr>user := Some u2\<rparr>) s)) \<and>
   map anonymise (trace (snd (project_list env (request\<lparr>user := Some u1\<rparr>) s)))
     = map anonymise (trace (snd (project_list env (request\<lparr>user := Some u2\<rparr>) s))) \<and>
   (get_object_or_404 env i s = (Inr p, s) \<longrightarrow>
      (http_method request \<noteq> ''POST'' \<longrightarrow>
         fst (project_detail env (request\<lparr>user := Some u1\<rparr>) i s)
           = Inr (Render ''construction/project_detail.html''
                    (ProjectContext p (document_url env p)))) \<and>
      (http_method request = ''POST'' \<and> POST request ''action'' = Some ''delete'' \<longrightarrow>
         fst (project_detail env (request\<lparr>user := Some u1\<rparr>) i s)
           = Inr (Redirect ''project_list'') \<and>
         find (\<lambda>r. pk r = i) (projects (snd (project_detail env (request\<lparr>user := Some u1\<rparr>) i s)))
           = None) \<and>
      (http_method request = ''POST'' \<and> POST request ''action'' = Some ''update'' \<longrightarrow>
         fst (project_detail env (request\<lparr>user := Some u1\<rparr>) i s)
           = (case db_check env (updated_project env request p) of
                Some e \<Rightarrow> Inl e
              | None \<Rightarrow> Inr (Render ''construction/project_detail.html''
                              (ProjectContext (updated_project env request p)
                                 (document_url env (updated_project env request p)))))))"
proof -
  let ?r1 = "request\<lparr>user := Some u1\<rparr>" and ?r2 = "request\<lparr>user := Some u2\<rparr>"
  have u: "user ?r1 = Some u1" "user ?r2 = Some u2"
    and same: "http_method ?r1 = http_method ?r2" "POST ?r1 = POST ?r2" "FILES ?r1 = FILES ?r2"
    and r1: "http_method ?r1 = http_method request" "POST ?r1 = POST request"
      "FILES ?r1 = FILES request"
    by simp_all
  note D = project_detail_user_independent[OF u same, of env i s]
  have L: "fst (project_list env ?r1 s) = fst (project_list env ?r2 s) \<and>
           projects (snd (project_list env ?r1 s)) = projects (snd (project_list env ?r2 s)) \<and>
           map anonymise (trace (snd (project_list env ?r1 s)))
             = map anonymise (trace (snd (project_list env ?r2 s)))"
    by (cases "read_all env (objects_all s)")
       (simp_all add: project_list_authenticated[OF u(1)] project_list_authenticated[OF u(2)])
  have S: "get_object_or_404 env i s = (Inr p, s) \<longrightarrow>
      (http_method request \<noteq> ''POST'' \<longrightarrow>
         fst (project_detail env ?r1 i s)
           = Inr (Render ''construction/project_detail.html''
                    (ProjectContext p (document_url env p)))) \<and>
      (http_method request = ''POST'' \<and> POST request ''action'' = Some ''delete'' \<longrightarrow>
         fst (project_detail env ?r1 i s) = Inr (Redirect ''project_list'') \<and>
         find (\<lambda>r. pk r = i) (projects (snd (project_detail env ?r1 i s))) = None) \<and>
      (http_method request = ''POST'' \<and> POST request ''action'' = Some ''update'' \<longrightarrow>
         fst (project_detail env ?r1 i s)
           = (case db_check env (updated_project env request p) of
                Some e \<Rightarrow> Inl e
              | None \<Rightarrow> Inr (Render ''construction/project_detail.html''
                              (ProjectContext (updated_project env request p)
                                 (document_url env (updated_project env request p))))))"
  proof (intro impI)
    assume "get_object_or_404 env i s = (Inr p, s)"
    then obtain row where f: "find (\<lambda>r. pk r = i) (projects s) = Some row"
      and rd: "from_row env row = Inr p"
      by (rule get_object_or_404_find)
    have upd: "updated_project env ?r1 p = updated_project env request p"
      by (rule same_form_shorthand(2)) simp_all
    have V: "http_method request \<noteq> ''POST'' \<longrightarrow>
         fst (project_detail env ?r1 i s)
           = Inr (Render ''construction/project_detail.html''
                    (ProjectContext p (document_url env p)))"
    proof
      assume "http_method request \<noteq> ''POST''"
      then have "http_method ?r1 \<noteq> ''POST'' \<or>
          (POST ?r1 ''action'' \<noteq> Some ''update'' \<and> POST ?r1 ''action'' \<noteq> Some ''delete'')"
        by simp
      from project_detail_view[OF u(1) this f rd]
      show "fst (project_detail env ?r1 i s)
           = Inr (Render ''construction/project_detail.html''
                    (ProjectContext p (document_url env p)))"
        by simp
    qed
    have X: "http_method request = ''POST'' \<and> POST request ''action'' = Some ''delete'' \<longrightarrow>
         fst (project_detail env ?r1 i s) = Inr (Redirect ''project_list'') \<and>
         find (\<lambda>r. pk r = i) (projects (snd (project_detail env ?r1 i s))) = None"
    proof
      assume "http_method request = ''POST'' \<and> POST request ''action'' = Some ''delete''"
      then have c: "http_method ?r1 = ''POST''" "POST ?r1 ''action'' = Some ''delete''"
        by simp_all
      from project_detail_delete[OF u(1) c f rd]
      show "fst (project_detail env ?r1 i s) = Inr (Redirect ''project_list'') \<and>
         find (\<lambda>r. pk r = i) (projects (snd (project_detail env ?r1 i s))) = None"
        by (simp add: find_filter_other)
    qed
    have U: "http_method request = ''POST'' \<and> POST request ''action'' = Some ''update'' \<longrightarrow>
         fst (project_detail env ?r1 i s)
           = (case db_check env (updated_project env request p) of
                Some e \<Rightarrow> Inl e
              | None \<Rightarrow> Inr (Render ''construction/project_detail.html''
                              (ProjectContext (updated_project env request p)
                                 (document_url env (updated_project env request p)))))"
    proof
      assume "http_method request = ''POST'' \<and> POST request ''action'' = Some ''update''"
      then have c: "http_method ?r1 = ''POST''" "POST ?r1 ''action'' = Some ''update''"
        by simp_all
      show "fst (project_detail env ?r1 i s)
           = (case db_check env (updated_project env request p) of
                Some e \<Rightarrow> Inl e
              | None \<Rightarrow> Inr (Render ''construction/project_detail.html''
                              (ProjectContext (updated_project env request p)
                                 (document_url env (updated_project env request p)))))"
        unfolding project_detail_update[OF u(1) c f rd] upd
        by (cases "db_check env (updated_project env request p)") simp_all
    qed
    from V X U show "(http_method request \<noteq> ''POST'' \<longrightarrow>
         fst (project_detail env ?r1 i s)
           = Inr (Render ''construction/project_detail.html''
                    (ProjectContext p (document_url env p)))) \<and>
      (http_method request = ''POST'' \<and> POST request ''action'' = Some ''delete'' \<longrightarrow>
         fst (project_detail env ?r1 i s) = Inr (Redirect ''project_list'') \<and>
         find (\<lambda>r. pk r = i) (projects (snd (project_detail env ?r1 i s))) = None) \<and>
      (http_method request = ''POST'' \<and> POST request ''action'' = Some ''update'' \<longrightarrow>
         fst (project_detail env ?r1 i s)
           = (case db_check env (updated_project env request p) of
                Some e \<Rightarrow> Inl e
              | None \<Rightarrow> Inr (Render ''construction/project_detail.html''
                              (ProjectContext (updated_project env request p)
                                 (document_url env (updated_project env request p))))))"
      by (intro conjI)
  qed
  from D L S show ?thesis
    by (intro conjI) (elim conjE, assumption)+
qed

theorem outcome_independent_of_ownership_witness:
  "user_id bob \<noteq> manager sample_project \<and>
   get_object_or_404 (sample_env True 10) 1 one_project_db = (Inr sample_project, one_project_db) \<and>
   http_method (get_request alice) \<noteq> ''POST'' \<and>
   fst (project_detail (sample_env True 10) ((get_request alice)\<lparr>user := Some bob\<rparr>) 1 one_project_db)
     = fst (project_detail (sample_env True 10) ((get_request alice)\<lparr>user := Some alice\<rparr>) 1
              one_project_db) \<and>
   fst (project_detail (sample_env True 10) ((get_request alice)\<lparr>user := Some bob\<rparr>) 1 one_project_db)
     = Inr (Render ''construction/project_detail.html''
              (ProjectContext sample_project (document_url (sample_env True 10) sample_project))) \<and>
   http_method (post_request alice [(''action'', ''delete'')] None) = ''POST'' \<and>
   POST (post_request alice [(''action'', ''delete'')] None) ''action'' = Some ''delete'' \<and>
   fst (project_detail (sample_env True 10)
          ((post_request alice [(''action'', ''delete'')] None)\<lparr>user := Some bob\<rparr>) 1 one_project_db)
     = Inr (Redirect ''project_list'') \<and>
   http_method (post_request alice ((''action'', ''update'') # sample_form ''Bridge'' ''High'') None)
     = ''POST'' \<and>
   POST (post_request alice ((''action'', ''update'') # sample_form ''Bridge'' ''High'') None) ''action''
     = Some ''update'' \<and>
   \<not> isl (fst (project_detail (sample_env True 10)
                ((post_request alice ((''action'', ''update'') # sample_form ''Bridge'' ''High'') None)
                   \<lparr>user := Some bob\<rparr>) 1 one_project_db))"
proof -
  let ?E = "sample_env True 10"
  let ?G = "get_request alice"
  let ?D = "post_request alice [(''action'', ''delete'')] None"
  let ?U = "post_request alice ((''action'', ''update'') # sample_form ''Bridge'' ''High'') None"
  note T = outcome_independent_of_ownership
  have own: "user_id bob \<noteq> manager sample_project"
    by (simp add: bob_def sample_project_def)
  have g: "get_object_or_404 ?E 1 one_project_db = (Inr sample_project, one_project_db)"
    by code_simp
  have req: "http_method ?G \<noteq> ''POST''"
    "http_method ?D = ''POST''" "POST ?D ''action'' = Some ''delete''"
    "http_method ?U = ''POST''" "POST ?U ''action'' = Some ''update''"
    by (simp_all add: get_request_def post_request_def)
  have db: "db_check ?E (updated_project ?E ?U sample_project) = None"
    by code_simp
  have A: "fst (project_detail ?E (?G\<lparr>user := Some bob\<rparr>) 1 one_project_db)
             = fst (project_detail ?E (?G\<lparr>user := Some alice\<rparr>) 1 one_project_db)"
    by (rule T[THEN conjunct1])
  note S = T[THEN conjunct2, THEN conjunct2, THEN conjunct2, THEN conjunct2, THEN conjunct2,
             THEN conjunct2, THEN conjunct2, THEN mp, OF g]
  have B: "fst (project_detail ?E (?G\<lparr>user := Some bob\<rparr>) 1 one_project_db)
     = Inr (Render ''construction/project_detail.html''
              (ProjectContext sample_project (document_url ?E sample_project)))"
    by (rule S[THEN conjunct1, THEN mp, OF req(1)])
  have C: "fst (project_detail ?E (?D\<lparr>user := Some bob\<rparr>) 1 one_project_db)
     = Inr (Redirect ''project_list'')"
    by (rule S[THEN conjunct2, THEN conjunct1, THEN mp, OF conjI[OF req(2,3)], THEN conjunct1])
  have "fst (project_detail ?E (?U\<lparr>user := Some bob\<rparr>) 1 one_project_db)
          = (case db_check ?E (updated_project ?E ?U sample_project) of
               Some e \<Rightarrow> Inl e
             | None \<Rightarrow> Inr (Render ''construction/project_detail.html''
                             (ProjectContext (updated_project ?E ?U sample_project)
                                (document_url ?E (updated_project ?E ?U sample_project)))))"
    by (rule S[THEN conjunct2, THEN conjunct2, THEN mp, OF conjI[OF req(4,5)]])
  then have D: "\<not> isl (fst (project_detail ?E (?U\<lparr>user := Some bob\<rparr>) 1 one_project_db))"
    by (simp add: db)
  from own g req A B C D show ?thesis
    by (intro conjI)
qed

end
